theory Spec2Isabelle
  imports Complex_Main "HOL-Library.Multiset"
begin

section \<open>Numbers, errors and library functions\<close>

text \<open>
  The program computes with JavaScript numbers, IEEE 754 binary64. A finite number is read
  as the real it denotes; risk scores are sums of small integers and are kept as \<open>int\<close>.
  The operations that give a portfolio percentage and the USD estimate of the
  orchestrator round their exact result to the nearest double (\<open>double_div\<close>,
  \<open>double_mul\<close>, \<open>double_add\<close> below). The mean and the weighted sum of the overall score
  are computed on the reals without rounding. \<open>NaN\<close> and the infinities are not values
  of the model: an operation that would leave the finite numbers (a division by zero, an
  overflow) is an explicit error branch, and so is a property access on \<open>undefined\<close>.
\<close>

datatype error = NotFinite | TypeError

text \<open>The division on the reals, for the mean of the scores.\<close>

definition js_div :: "real \<Rightarrow> real \<Rightarrow> error + real" where
  "js_div a b = (if b = 0 then Inl NotFinite else Inr (a / b))"

subsection \<open>Rounding to binary64\<close>

text \<open>
  Rounding to an integer, a tie going to the even neighbour.
\<close>

definition round_even :: "real \<Rightarrow> int" where
  "round_even y =
     (let f = \<lfloor>y\<rfloor>; d = y - real_of_int f
      in if d < 1 / 2 then f else if 1 / 2 < d then f + 1 else if even f then f else f + 1)"

text \<open>
  The exponent of the binade of a magnitude \<open>a\<close>: the \<open>e\<close> from -1022 to 1023 with
  \<open>2^e \<le> a < 2^(e+1)\<close>, found by bisection; -1022 for the subnormal numbers and 1023
  from \<open>2^1024\<close> on.
\<close>

function binade_between :: "real \<Rightarrow> int \<Rightarrow> int \<Rightarrow> int" where
  "binade_between a lo hi =
     (if hi \<le> lo + 1 then lo
      else let mid = (lo + hi) div 2
           in if 2 powi mid \<le> a then binade_between a mid hi else binade_between a lo mid)"
  by pat_completeness auto
termination
  by (relation "measure (\<lambda>(a, lo, hi). nat (hi - lo))") auto

declare binade_between.simps [simp del]

definition binade :: "real \<Rightarrow> int" where
  "binade x = binade_between \<bar>x\<bar> (- 1022) 1024"

text \<open>
  The double nearest to a real, ties to even: a multiple of \<open>2^(e-52)\<close> in the binade
  \<open>e\<close>, so with 53 significant bits, or a multiple of \<open>2^(-1074)\<close> below \<open>2^(-1022)\<close>. A
  result of magnitude \<open>2^1024\<close> is an overflow.
\<close>

definition round_double :: "real \<Rightarrow> real" where
  "round_double x = (let q = 2 powi (binade x - 52) in real_of_int (round_even (x / q)) * q)"

definition to_double :: "real \<Rightarrow> error + real" where
  "to_double x = (let r = round_double x in if \<bar>r\<bar> < 2 ^ 1024 then Inr r else Inl NotFinite)"

text \<open>The operators \<open>/\<close>, \<open>*\<close> and \<open>+\<close> on doubles.\<close>

definition double_div :: "real \<Rightarrow> real \<Rightarrow> error + real" where
  "double_div a b = (if b = 0 then Inl NotFinite else to_double (a / b))"

definition double_mul :: "real \<Rightarrow> real \<Rightarrow> error + real" where
  "double_mul a b = to_double (a * b)"

definition double_add :: "real \<Rightarrow> real \<Rightarrow> error + real" where
  "double_add a b = to_double (a + b)"

text \<open>
  \<open>Math.pow(b, n)\<close> for an integer \<open>n\<close>, taken as the double nearest to the power
  (ECMAScript leaves the precision of \<open>Math.pow\<close> to the implementation).
\<close>

definition Math_pow :: "real \<Rightarrow> int \<Rightarrow> error + real" where
  "Math_pow b n = (if b = 0 \<and> n < 0 then Inl NotFinite else to_double (b powi n))"

subsection \<open>Arrays, rounding to integers and printing\<close>

text \<open>\<open>xs[0].field\<close> without optional chaining: a TypeError on the empty array.\<close>

definition first_elem :: "'a list \<Rightarrow> error + 'a" where
  "first_elem xs = (case xs of [] \<Rightarrow> Inl TypeError | x # _ \<Rightarrow> Inr x)"

text \<open>\<open>Math.round\<close>: the closest integer, a tie going towards plus infinity.\<close>

definition Math_round :: "real \<Rightarrow> int" where
  "Math_round x = \<lfloor>x + 1 / 2\<rfloor>"

definition Math_abs :: "real \<Rightarrow> real" where
  "Math_abs x = (if x < 0 then - x else x)"

definition Math_min :: "int \<Rightarrow> int \<Rightarrow> int" where
  "Math_min a b = (if b < a then b else a)"

text \<open>\<open>x || d\<close> on a number: zero is falsy.\<close>

definition num_or :: "real \<Rightarrow> real \<Rightarrow> real" where
  "num_or x d = (if x = 0 then d else x)"

definition int_or :: "int \<Rightarrow> int \<Rightarrow> int" where
  "int_or x d = (if x = 0 then d else x)"

text \<open>Decimal printing of integers, as template literals do for integral numbers.\<close>

definition digit_char :: "nat \<Rightarrow> char" where
  "digit_char d = ''0123456789'' ! d"

function show_nat :: "nat \<Rightarrow> string" where
  "show_nat n = (if n < 10 then [digit_char n] else show_nat (n div 10) @ [digit_char (n mod 10)])"
  by pat_completeness auto
termination
  by (relation "measure (\<lambda>n. n)") auto

declare show_nat.simps [simp del]

definition show_int :: "int \<Rightarrow> string" where
  "show_int i = (if i < 0 then ''-'' @ show_nat (nat (- i)) else show_nat (nat i))"

text \<open>
  \<open>Number::toString\<close> of a double \<open>x\<close> from \<open>10^21\<close> on, in exponent notation. ECMAScript
  takes the least number \<open>k\<close> of digits for which some \<open>s\<close> of \<open>k\<close> digits and some \<open>n\<close>
  have \<open>s * 10^(n-k)\<close> read back as \<open>x\<close>; among these the one closest to \<open>x\<close>, and the even
  \<open>s\<close> on a tie. With \<open>N\<close> the number of digits of the integer \<open>x\<close>, the only candidates
  of \<open>k\<close> digits are the two neighbours of \<open>x / 10^(N-k)\<close> with \<open>n = N\<close>, and \<open>10^(k-1)\<close>
  with \<open>n = N + 1\<close>. Seventeen digits identify every double.
\<close>

definition exponent_candidates :: "real \<Rightarrow> nat \<Rightarrow> nat \<Rightarrow> (nat \<times> nat) list" where
  "exponent_candidates x N k =
     (let s0 = nat \<lfloor>x / 10 ^ (N - k)\<rfloor>
      in filter (\<lambda>(s, n). 10 ^ (k - 1) \<le> s \<and> s < 10 ^ k
                          \<and> round_double (real s * 10 ^ (n - k)) = x)
           [(s0, N), (s0 + 1, N), (10 ^ (k - 1), N + 1)])"

definition closer :: "real \<Rightarrow> nat \<Rightarrow> nat \<times> nat \<Rightarrow> nat \<times> nat \<Rightarrow> nat \<times> nat" where
  "closer x k c c' =
     (let d = \<bar>real (fst c) * 10 ^ (snd c - k) - x\<bar>;
          d' = \<bar>real (fst c') * 10 ^ (snd c' - k) - x\<bar>
      in if d' < d \<or> (d' = d \<and> even (fst c')) then c' else c)"

fun shortest_digits :: "real \<Rightarrow> nat \<Rightarrow> nat \<Rightarrow> nat \<Rightarrow> (nat \<times> nat \<times> nat) option" where
  "shortest_digits x N k 0 = None"
| "shortest_digits x N k (Suc fuel) =
     (case exponent_candidates x N k of
        [] \<Rightarrow> shortest_digits x N (k + 1) fuel
      | c # cs \<Rightarrow> (let b = foldl (closer x k) c cs in Some (k, fst b, snd b)))"

definition exponent_notation :: "real \<Rightarrow> string" where
  "exponent_notation x =
     (case shortest_digits x (length (show_nat (nat \<lfloor>x\<rfloor>))) 1 17 of
        None \<Rightarrow> []
      | Some (k, s, n) \<Rightarrow>
          (if k = 1 then show_nat s else [hd (show_nat s), CHR ''.''] @ tl (show_nat s))
          @ ''e+'' @ show_nat (n - 1))"

text \<open>
  \<open>x.toFixed(0)\<close>: the sign, then, below \<open>10^21\<close>, the integer closest to the absolute
  value in plain digits, a tie going away from zero; from \<open>10^21\<close> on, the exponent
  notation of the double.
\<close>

definition toFixed0 :: "real \<Rightarrow> string" where
  "toFixed0 x =
     (if x < 0
        then ''-'' @ (if 10 ^ 21 \<le> - x then exponent_notation (round_double (- x))
                      else show_nat (nat \<lfloor>- x + 1 / 2\<rfloor>))
      else if 10 ^ 21 \<le> x then exponent_notation (round_double x)
      else show_nat (nat \<lfloor>x + 1 / 2\<rfloor>))"

text \<open>\<open>xs.join(sep)\<close>.\<close>

fun join :: "string \<Rightarrow> string list \<Rightarrow> string" where
  "join sep [] = []"
| "join sep [x] = x"
| "join sep (x # y # ys) = x @ sep @ join sep (y # ys)"

text \<open>
  \<open>Array.prototype.sort(cmp)\<close>: ECMAScript requires the sort to be stable. It is modelled
  by the stable insertion sort: going from the right, an element is put before the first
  element that the comparator does not order before it. The comparator returns a number,
  of which only the sign is used.
\<close>

fun insert_by :: "('a \<Rightarrow> 'a \<Rightarrow> 'n::{zero,ord}) \<Rightarrow> 'a \<Rightarrow> 'a list \<Rightarrow> 'a list" where
  "insert_by cmp x [] = [x]"
| "insert_by cmp x (y # ys) = (if cmp x y \<le> 0 then x # y # ys else y # insert_by cmp x ys)"

definition Array_sort :: "('a \<Rightarrow> 'a \<Rightarrow> 'n::{zero,ord}) \<Rightarrow> 'a list \<Rightarrow> 'a list" where
  "Array_sort cmp xs = foldr (insert_by cmp) xs []"

text \<open>\<open>xs.some(p)\<close> and \<open>xs.filter(p)\<close> are \<open>list_ex\<close> and \<open>filter\<close>.\<close>

section \<open>Data model (src/types.ts, src/dexscreener.ts)\<close>

record TokenHolding =
  contractAddress :: string
  tokenName :: string
  tokenSymbol :: string
  balance :: string
  decimals :: int
  usdValue :: "real option"

text \<open>The request of \<open>analyzeWallet\<close>; \<open>chainId\<close> is optional.\<close>

record AnalyzeRequest =
  walletAddress :: string
  chainId :: "int option"

text \<open>
  One element of \<open>pairs\<close> in a DexScreener response, with the fields that
  \<open>getTokenDexData\<close> reads. The response is untyped JSON: a field may be missing, and
  \<open>baseToken\<close>, \<open>liquidity\<close>, \<open>volume\<close> and \<open>priceChange\<close> are objects read through \<open>?.\<close>
  (\<open>baseToken?.symbol\<close>, \<open>liquidity?.usd\<close>, \<open>volume?.h24\<close>, \<open>priceChange?.h24\<close>): the outer
  option is the object, the inner one its field.
\<close>

record DexPair =
  chainId :: string
  baseToken :: "string option option"
  priceUsd :: "string option"
  liquidity :: "real option option"
  marketCap :: "real option"
  volume :: "real option option"
  priceChange :: "real option option"
  url :: "string option"

record DexTokenData =
  symbol :: string
  priceUsd :: real
  liquidityUsd :: real
  marketCapUsd :: real
  volume24h :: real
  priceChange24h :: real
  hasLiquidityLock :: bool
  dexUrl :: string

text \<open>
  The collectors that \<open>analyzeWallet\<close> calls are outside the engine: what they return is a
  parameter of the model. \<open>isContractVerified\<close> is awaited with \<open>Promise.allSettled\<close>, so
  its result is optional (\<open>None\<close> is a rejected promise).
\<close>

record Collectors =
  getTokenHoldings :: "string \<Rightarrow> int \<Rightarrow> TokenHolding list"
  batchGetDexData :: "string list \<Rightarrow> int \<Rightarrow> (string \<rightharpoonup> DexTokenData option)"
  isContractVerified :: "string \<Rightarrow> int \<Rightarrow> bool option"

text \<open>
  The flag strings of a token, one constructor per template of \<open>scoreTokenRisk\<close>, with the
  number the template prints.
\<close>

datatype TokenFlag =
    NotVerifiedFlag
  | NoDexDataFlag
  | CriticallyLowLiquidityFlag real
  | LowLiquidityFlag real
  | NoLiquidityLockFlag
  | HighPriceChangeFlag real
  | ExtremeConcentrationFlag real
  | HighConcentrationFlag real

record TokenRisk =
  symbol :: string
  contractAddress :: string
  portfolioPercentage :: real
  liquidityUsd :: real
  isContractVerified :: bool
  hasLiquidityLock :: bool
  riskScore :: int
  flags :: "TokenFlag list"

datatype RiskLevel = LOW | MEDIUM | HIGH | CRITICAL

record PortfolioFlags =
  concentrationRisk :: bool
  rugPullRisk :: bool
  lowLiquidityRisk :: bool
  highVolatilityRisk :: bool

record RiskReport =
  walletAddress :: string
  analyzedAt :: string
  chainId :: int
  chainName :: string
  totalTokensFound :: nat
  estimatedPortfolioUsd :: real
  overallRiskScore :: int
  riskLevel :: RiskLevel
  tokenRisks :: "TokenRisk list"
  flags :: PortfolioFlags
  summary :: string
  recommendations :: "string list"

section \<open>Per-token scoring (src/analyzer.ts, scoreTokenRisk)\<close>

text \<open>
  The function threads \<open>riskScore\<close> and \<open>flags\<close> through three blocks; each block is a
  function on that pair.
\<close>

type_synonym scoring = "int \<times> TokenFlag list"

definition add_risk :: "int \<Rightarrow> TokenFlag list \<Rightarrow> scoring \<Rightarrow> scoring" where
  "add_risk pts fl s = (fst s + pts, snd s @ fl)"

definition verification_check :: "bool \<Rightarrow> scoring \<Rightarrow> scoring" where
  "verification_check isVerified s =
     (if \<not> isVerified then add_risk 30 [NotVerifiedFlag] s else s)"

definition liquidity_checks :: "DexTokenData option \<Rightarrow> scoring \<Rightarrow> scoring" where
  "liquidity_checks dexData s =
     (case dexData of
        None \<Rightarrow> add_risk 25 [NoDexDataFlag] s
      | Some d \<Rightarrow>
          (let s1 = (if DexTokenData.liquidityUsd d < 10000
                       then add_risk 35 [CriticallyLowLiquidityFlag (DexTokenData.liquidityUsd d)] s
                     else if DexTokenData.liquidityUsd d < 50000
                       then add_risk 20 [LowLiquidityFlag (DexTokenData.liquidityUsd d)] s
                     else if DexTokenData.liquidityUsd d < 500000
                       then add_risk 5 [] s
                     else s);
               s2 = (if \<not> DexTokenData.hasLiquidityLock d
                       then add_risk 15 [NoLiquidityLockFlag] s1 else s1)
           in if Math_abs (priceChange24h d) > 30
                then add_risk 10 [HighPriceChangeFlag (priceChange24h d)] s2 else s2))"

definition concentration_check :: "real \<Rightarrow> scoring \<Rightarrow> scoring" where
  "concentration_check portfolioPercent s =
     (if portfolioPercent > 70 then add_risk 20 [ExtremeConcentrationFlag portfolioPercent] s
      else if portfolioPercent > 50 then add_risk 10 [HighConcentrationFlag portfolioPercent] s
      else s)"

definition scoreTokenRisk ::
  "TokenHolding \<Rightarrow> real \<Rightarrow> DexTokenData option \<Rightarrow> bool \<Rightarrow> TokenRisk" where
  "scoreTokenRisk holding portfolioPercent dexData isVerified =
     (let s = concentration_check portfolioPercent
                (liquidity_checks dexData (verification_check isVerified (0, [])))
      in \<lparr> TokenRisk.symbol = tokenSymbol holding,
           TokenRisk.contractAddress = TokenHolding.contractAddress holding,
           portfolioPercentage = portfolioPercent,
           TokenRisk.liquidityUsd =
             (case dexData of None \<Rightarrow> 0 | Some d \<Rightarrow> num_or (DexTokenData.liquidityUsd d) 0),
           isContractVerified = isVerified,
           TokenRisk.hasLiquidityLock =
             (case dexData of None \<Rightarrow> False | Some d \<Rightarrow> DexTokenData.hasLiquidityLock d \<or> False),
           riskScore = Math_min 100 (fst s),
           TokenRisk.flags = snd s \<rparr>)"

section \<open>Portfolio aggregation (src/analyzer.ts, buildRiskReport)\<close>

text \<open>
  \<open>buildRiskReport\<close> is one function in the source. Its steps are named here in the order
  of the source and composed in \<open>buildRiskReport\<close> below. A step that divides or reads the
  first element of an array returns an error or a value; \<open>bindE\<close> and \<open>mapE\<close> pass the
  first error on.
\<close>

definition bindE :: "error + 'a \<Rightarrow> ('a \<Rightarrow> error + 'b) \<Rightarrow> error + 'b" where
  "bindE r f = (case r of Inl e \<Rightarrow> Inl e | Inr x \<Rightarrow> f x)"

fun mapE :: "('a \<Rightarrow> error + 'b) \<Rightarrow> 'a list \<Rightarrow> error + 'b list" where
  "mapE f [] = Inr []"
| "mapE f (x # xs) = bindE (f x) (\<lambda>y. bindE (mapE f xs) (\<lambda>ys. Inr (y # ys)))"

text \<open>
  The percentage of one holding, \<open>portfolioPercent\<close> in the callback of \<open>holdings.map\<close>:
  \<open>estimatedPortfolioUsd > 0 && holding.usdValue\<close> tests the optional number for
  truthiness, so an absent value and the value zero both take the equal-weight branch.
  The quotient is rounded to a double, and so is its product with 100.
\<close>

definition portfolioPercentOf :: "real \<Rightarrow> TokenHolding list \<Rightarrow> TokenHolding \<Rightarrow> error + real" where
  "portfolioPercentOf estimatedPortfolioUsd' holdings holding =
     (case usdValue holding of
        None \<Rightarrow> double_div 100 (real (length holdings))
      | Some u \<Rightarrow>
          if estimatedPortfolioUsd' > 0 \<and> u \<noteq> 0
            then bindE (double_div u estimatedPortfolioUsd') (\<lambda>q. double_mul q 100)
          else double_div 100 (real (length holdings)))"

text \<open>\<open>dexDataMap.get(a) || null\<close> and \<open>verifiedMap.get(a) || false\<close>.\<close>

definition get_or_null :: "(string \<rightharpoonup> DexTokenData option) \<Rightarrow> string \<Rightarrow> DexTokenData option" where
  "get_or_null m a = (case m a of None \<Rightarrow> None | Some v \<Rightarrow> v)"

definition get_or_false :: "(string \<rightharpoonup> bool) \<Rightarrow> string \<Rightarrow> bool" where
  "get_or_false m a = (case m a of None \<Rightarrow> False | Some b \<Rightarrow> b \<or> False)"

text \<open>The callback of \<open>holdings.map\<close>.\<close>

definition holdingRisk ::
  "TokenHolding list \<Rightarrow> (string \<rightharpoonup> DexTokenData option) \<Rightarrow> (string \<rightharpoonup> bool) \<Rightarrow> real
     \<Rightarrow> TokenHolding \<Rightarrow> error + TokenRisk" where
  "holdingRisk holdings dexDataMap verifiedMap estimatedPortfolioUsd' holding =
     bindE (portfolioPercentOf estimatedPortfolioUsd' holdings holding)
       (\<lambda>portfolioPercent.
          Inr (scoreTokenRisk holding portfolioPercent
                 (get_or_null dexDataMap (TokenHolding.contractAddress holding))
                 (get_or_false verifiedMap (TokenHolding.contractAddress holding))))"

text \<open>The comparator \<open>(a, b) => b.riskScore - a.riskScore\<close>.\<close>

definition byRiskDesc :: "TokenRisk \<Rightarrow> TokenRisk \<Rightarrow> int" where
  "byRiskDesc a b = riskScore b - riskScore a"

text \<open>
  \<open>avgScore\<close>: the sum by \<open>reduce\<close> over the length, or 0 for the empty list.
\<close>

definition avgScoreOf :: "TokenRisk list \<Rightarrow> error + real" where
  "avgScoreOf tokenRisks' =
     (if length tokenRisks' > 0
        then js_div (real_of_int (foldl (\<lambda>sum t. sum + riskScore t) 0 tokenRisks'))
               (real (length tokenRisks'))
      else Inr 0)"

text \<open>\<open>maxScore\<close>: \<open>tokenRisks[0]?.riskScore || 0\<close>, on the sorted list.\<close>

definition maxScoreOf :: "TokenRisk list \<Rightarrow> int" where
  "maxScoreOf tokenRisks' = (case tokenRisks' of [] \<Rightarrow> 0 | t # _ \<Rightarrow> int_or (riskScore t) 0)"

text \<open>\<open>overallRiskScore\<close>: \<open>Math.round(avgScore * 0.6 + maxScore * 0.4)\<close>.\<close>

definition overallScoreOf :: "TokenRisk list \<Rightarrow> error + int" where
  "overallScoreOf tokenRisks' =
     bindE (avgScoreOf tokenRisks')
       (\<lambda>avgScore. Inr (Math_round (avgScore * 0.6 + real_of_int (maxScoreOf tokenRisks') * 0.4)))"

text \<open>The chain of comparisons that sets \<open>riskLevel\<close>.\<close>

definition riskLevelOf :: "int \<Rightarrow> RiskLevel" where
  "riskLevelOf overallRiskScore' =
     (if overallRiskScore' \<ge> 70 then CRITICAL
      else if overallRiskScore' \<ge> 50 then HIGH
      else if overallRiskScore' \<ge> 30 then MEDIUM
      else LOW)"

text \<open>The four top-level flags, each \<open>tokenRisks.some(...)\<close>.\<close>

definition portfolioFlagsOf :: "TokenRisk list \<Rightarrow> PortfolioFlags" where
  "portfolioFlagsOf tokenRisks' =
     \<lparr> concentrationRisk = list_ex (\<lambda>t. portfolioPercentage t > 50) tokenRisks',
       rugPullRisk = list_ex (\<lambda>t. \<not> isContractVerified t \<and> \<not> TokenRisk.hasLiquidityLock t) tokenRisks',
       lowLiquidityRisk =
         list_ex (\<lambda>t. TokenRisk.liquidityUsd t > 0 \<and> TokenRisk.liquidityUsd t < 50000) tokenRisks',
       highVolatilityRisk = list_ex (\<lambda>t. portfolioPercentage t > 30 \<and> riskScore t > 50) tokenRisks' \<rparr>"

subsection \<open>Recommendations\<close>

text \<open>
  One constructor per template of \<open>buildRecommendations\<close>, with the values the template
  prints; \<open>renderRecommendation\<close> is the template.
\<close>

datatype Recommendation =
    ReduceHighRisk "string list"
  | ResearchUnverified nat "string list"
  | LowLiquidityExit "string list"
  | Diversify string real
  | LooksSafe

text \<open>The dash of the templates, U+2014, as its three bytes in UTF-8.\<close>

definition em_dash :: string where
  "em_dash = [CHR 0xE2, CHR 0x80, CHR 0x94]"

fun renderRecommendation :: "Recommendation \<Rightarrow> string" where
  "renderRecommendation (ReduceHighRisk names) =
     ''Consider reducing or exiting high-risk positions: '' @ join '', '' names"
| "renderRecommendation (ResearchUnverified n names) =
     show_nat n @ '' token(s) have unverified contracts '' @ em_dash
       @ '' research thoroughly before holding: '' @ join '', '' names"
| "renderRecommendation (LowLiquidityExit names) =
     ''Low liquidity tokens may be hard to exit quickly: '' @ join '', '' names"
| "renderRecommendation (Diversify name pct) =
     ''Portfolio is highly concentrated in '' @ name @ '' ('' @ toFixed0 pct @ ''%) '' @ em_dash
       @ '' consider diversifying''"
| "renderRecommendation LooksSafe =
     ''Portfolio looks relatively safe. Continue monitoring liquidity and market conditions.''"

text \<open>
  The body of \<open>buildRecommendations\<close>: the four filters, then the five rules in order,
  each pushing at most one recommendation.
\<close>

definition recommendationItems :: "TokenRisk list \<Rightarrow> int \<Rightarrow> error + Recommendation list" where
  "recommendationItems tokenRisks' overallScore =
     (let highRisk = filter (\<lambda>t. riskScore t \<ge> 70) tokenRisks';
          unverified = filter (\<lambda>t. \<not> isContractVerified t) tokenRisks';
          lowLiquidity =
            filter (\<lambda>t. TokenRisk.liquidityUsd t < 50000 \<and> TokenRisk.liquidityUsd t > 0) tokenRisks';
          concentrated = filter (\<lambda>t. portfolioPercentage t > 50) tokenRisks';
          recs1 = (if length highRisk > 0
                     then [ReduceHighRisk (map TokenRisk.symbol highRisk)] else []);
          recs2 = (if length unverified > 0
                     then recs1 @ [ResearchUnverified (length unverified) (map TokenRisk.symbol unverified)]
                   else recs1);
          recs3 = (if length lowLiquidity > 0
                     then recs2 @ [LowLiquidityExit (map TokenRisk.symbol lowLiquidity)]
                   else recs2)
      in bindE (if length concentrated > 0
                  then bindE (first_elem concentrated)
                         (\<lambda>c. Inr (recs3 @ [Diversify (TokenRisk.symbol c) (portfolioPercentage c)]))
                else Inr recs3)
           (\<lambda>recs4. Inr (if overallScore < 30 then recs4 @ [LooksSafe] else recs4)))"

definition buildRecommendations :: "TokenRisk list \<Rightarrow> int \<Rightarrow> error + string list" where
  "buildRecommendations tokenRisks' overallScore =
     bindE (recommendationItems tokenRisks' overallScore)
       (\<lambda>recs. Inr (map renderRecommendation recs))"

subsection \<open>Summary\<close>

text \<open>The risk level as the string that \<open>buildSummary\<close> receives.\<close>

fun levelName :: "RiskLevel \<Rightarrow> string" where
  "levelName LOW = ''LOW''"
| "levelName MEDIUM = ''MEDIUM''"
| "levelName HIGH = ''HIGH''"
| "levelName CRITICAL = ''CRITICAL''"

text \<open>\<open>w.slice(0, 6)\<close> and \<open>w.slice(-4)\<close>.\<close>

definition slice_first6 :: "string \<Rightarrow> string" where
  "slice_first6 w = take 6 w"

definition slice_last4 :: "string \<Rightarrow> string" where
  "slice_last4 w = drop (length w - 4) w"

definition buildSummary :: "string \<Rightarrow> string \<Rightarrow> int \<Rightarrow> TokenRisk list \<Rightarrow> string" where
  "buildSummary walletAddress' riskLevel' overallScore tokenRisks' =
     ''Wallet '' @ slice_first6 walletAddress' @ ''...'' @ slice_last4 walletAddress' @ '' has a ''
     @ riskLevel' @ '' risk profile (score: '' @ show_int overallScore @ ''/100) across ''
     @ show_nat (length tokenRisks') @ '' token(s). ''
     @ (case Array_sort byRiskDesc tokenRisks' of
          topRisk # _ \<Rightarrow>
            ''Highest risk token: '' @ TokenRisk.symbol topRisk @ '' (''
            @ show_int (riskScore topRisk) @ ''/100). ''
        | [] \<Rightarrow> [])
     @ ''Analysis powered by Crypto Risk Analyzer Agent on Virtuals ACP.''"

subsection \<open>The report\<close>

text \<open>The first argument is the timestamp \<open>new Date().toISOString()\<close>.\<close>

definition buildRiskReport ::
  "string \<Rightarrow> string \<Rightarrow> int \<Rightarrow> string \<Rightarrow> TokenHolding list
     \<Rightarrow> (string \<rightharpoonup> DexTokenData option) \<Rightarrow> (string \<rightharpoonup> bool) \<Rightarrow> real \<Rightarrow> error + RiskReport" where
  "buildRiskReport now walletAddress' chainId' chainName' holdings dexDataMap verifiedMap
       estimatedPortfolioUsd' =
     bindE (mapE (holdingRisk holdings dexDataMap verifiedMap estimatedPortfolioUsd') holdings)
       (\<lambda>scored.
          let tokenRisks' = Array_sort byRiskDesc scored in
          bindE (overallScoreOf tokenRisks')
            (\<lambda>overallRiskScore'.
               let riskLevel' = riskLevelOf overallRiskScore' in
               bindE (buildRecommendations tokenRisks' overallRiskScore')
                 (\<lambda>recommendations'.
                    Inr \<lparr> walletAddress = walletAddress',
                          analyzedAt = now,
                          chainId = chainId',
                          chainName = chainName',
                          totalTokensFound = length holdings,
                          estimatedPortfolioUsd = estimatedPortfolioUsd',
                          overallRiskScore = overallRiskScore',
                          riskLevel = riskLevel',
                          tokenRisks = tokenRisks',
                          RiskReport.flags = portfolioFlagsOf tokenRisks',
                          summary = buildSummary walletAddress' (levelName riskLevel')
                                      overallRiskScore' tokenRisks',
                          recommendations = recommendations' \<rparr>)))"

section \<open>The DexScreener collector (src/dexscreener.ts, getTokenDexData)\<close>

text \<open>
  What \<open>axios.get\<close> gives: an exception, or a response whose \<open>data?.pairs\<close> is a list or
  is missing.
\<close>

datatype DexResponse = RequestFailed | Response "DexPair list option"

definition CHAIN_MAP :: "int \<rightharpoonup> string" where
  "CHAIN_MAP = [1 \<mapsto> ''ethereum'', 56 \<mapsto> ''bsc'', 137 \<mapsto> ''polygon'']"

text \<open>\<open>o?.f\<close> on an optional object, \<open>x || d\<close> on an optional number and on an optional string.\<close>

definition opt_field :: "'a option option \<Rightarrow> 'a option" where
  "opt_field obj = (case obj of None \<Rightarrow> None | Some f \<Rightarrow> f)"

definition opt_num_or :: "real option \<Rightarrow> real \<Rightarrow> real" where
  "opt_num_or x d = (case x of None \<Rightarrow> d | Some v \<Rightarrow> num_or v d)"

definition opt_str_or :: "string option \<Rightarrow> string \<Rightarrow> string" where
  "opt_str_or x d = (case x of None \<Rightarrow> d | Some v \<Rightarrow> if v = [] then d else v)"

text \<open>The comparator \<open>(a, b) => (b.liquidity?.usd || 0) - (a.liquidity?.usd || 0)\<close>.\<close>

definition byLiquidityDesc :: "DexPair \<Rightarrow> DexPair \<Rightarrow> real" where
  "byLiquidityDesc a b =
     opt_num_or (opt_field (liquidity b)) 0 - opt_num_or (opt_field (liquidity a)) 0"

text \<open>
  The first argument is \<open>parseFloat\<close>, a function of the language: it is a parameter, and a
  string that it does not read as a finite number is the error branch \<open>NotFinite\<close> of the
  model. The second is the outcome of the request for the contract address; the chain
  identifier is optional and defaults to 1. The result \<open>None\<close> is \<open>null\<close>.
\<close>

definition getTokenDexData ::
  "(string \<Rightarrow> error + real) \<Rightarrow> DexResponse \<Rightarrow> int option \<Rightarrow> error + DexTokenData option" where
  "getTokenDexData parseFloat response chainId' =
     (let chain = (case CHAIN_MAP (case chainId' of None \<Rightarrow> 1 | Some c \<Rightarrow> c) of
                     None \<Rightarrow> ''ethereum''
                   | Some n \<Rightarrow> if n = [] then ''ethereum'' else n)
      in case response of
           RequestFailed \<Rightarrow> Inr None
         | Response None \<Rightarrow> Inr None
         | Response (Some pairs) \<Rightarrow>
             if length pairs = 0 then Inr None
             else
               (let relevantPairs =
                      Array_sort byLiquidityDesc (filter (\<lambda>p. DexPair.chainId p = chain) pairs)
                in case relevantPairs of
                     [] \<Rightarrow> Inr None
                   | best # _ \<Rightarrow>
                       (let liquidityUsd' = opt_num_or (opt_field (liquidity best)) 0;
                            hasLiquidityLock' = (liquidityUsd' > 100000)
                        in bindE (parseFloat (opt_str_or (DexPair.priceUsd best) ''0''))
                             (\<lambda>price.
                                Inr (Some \<lparr> DexTokenData.symbol = opt_str_or (opt_field (baseToken best)) [],
                                            DexTokenData.priceUsd = price,
                                            DexTokenData.liquidityUsd = liquidityUsd',
                                            marketCapUsd = opt_num_or (marketCap best) 0,
                                            volume24h = opt_num_or (opt_field (volume best)) 0,
                                            priceChange24h = opt_num_or (opt_field (priceChange best)) 0,
                                            DexTokenData.hasLiquidityLock = hasLiquidityLock',
                                            dexUrl = opt_str_or (url best) [] \<rparr>)))))"

section \<open>The orchestrator (src/index.ts, analyzeWallet)\<close>

definition CHAIN_NAMES :: "int \<rightharpoonup> string" where
  "CHAIN_NAMES = [1 \<mapsto> ''Ethereum Mainnet'', 56 \<mapsto> ''BNB Smart Chain'', 137 \<mapsto> ''Polygon'']"

text \<open>\<open>CHAIN_NAMES[chainId] || `Chain ${chainId}`\<close>.\<close>

definition chainNameOf :: "int \<Rightarrow> string" where
  "chainNameOf chainId' =
     (case CHAIN_NAMES chainId' of
        None \<Rightarrow> ''Chain '' @ show_int chainId'
      | Some n \<Rightarrow> if n = [] then ''Chain '' @ show_int chainId' else n)"

text \<open>\<open>const { walletAddress, chainId = 1 } = req\<close>: the default of the chain identifier.\<close>

definition requestChain :: "AnalyzeRequest \<Rightarrow> int" where
  "requestChain req = (case AnalyzeRequest.chainId req of None \<Rightarrow> 1 | Some c \<Rightarrow> c)"

text \<open>The calls that a run of \<open>analyzeWallet\<close> makes are recorded in order.\<close>

datatype Call =
    CallGetTokenHoldings string int
  | CallBatchGetDexData "string list" int
  | CallIsContractVerified string int
  | CallBuildRiskReport

text \<open>\<open>contractAddresses.forEach((addr, i) => verifiedMap.set(addr, ...))\<close>.\<close>

definition verifiedMapOf :: "string list \<Rightarrow> bool option list \<Rightarrow> (string \<rightharpoonup> bool)" where
  "verifiedMapOf addrs results =
     foldl (\<lambda>m (addr, result). m(addr \<mapsto> (case result of Some v \<Rightarrow> v | None \<Rightarrow> False)))
       Map.empty (zip addrs results)"

text \<open>
  The loop of step 4: a holding with market data and a positive price gets its USD value,
  which is added to the running total. The third argument is the list of the holdings
  still to visit, the fourth the running total; the result is the list of the holdings
  as the loop leaves them, with the total.
\<close>

fun estimateUsd ::
  "(string \<Rightarrow> error + real) \<Rightarrow> (string \<rightharpoonup> DexTokenData option) \<Rightarrow> TokenHolding list \<Rightarrow> real
     \<Rightarrow> error + (TokenHolding list \<times> real)" where
  "estimateUsd parseFloat dexDataMap [] acc = Inr ([], acc)"
| "estimateUsd parseFloat dexDataMap (holding # rest) acc =
     (case get_or_null dexDataMap (TokenHolding.contractAddress holding) of
        None \<Rightarrow>
          bindE (estimateUsd parseFloat dexDataMap rest acc)
            (\<lambda>(rest', total'). Inr (holding # rest', total'))
      | Some dex \<Rightarrow>
          if DexTokenData.priceUsd dex > 0
            then bindE (parseFloat (balance holding))
                   (\<lambda>parsed. bindE (Math_pow 10 (decimals holding))
                      (\<lambda>scale. bindE (double_div parsed scale)
                         (\<lambda>rawBalance. bindE (double_mul rawBalance (DexTokenData.priceUsd dex))
                            (\<lambda>value. bindE (double_add acc value)
                               (\<lambda>acc'. bindE (estimateUsd parseFloat dexDataMap rest acc')
                                  (\<lambda>(rest', total').
                                     Inr (holding\<lparr>usdValue := Some value\<rparr> # rest', total')))))))
          else bindE (estimateUsd parseFloat dexDataMap rest acc)
                 (\<lambda>(rest', total'). Inr (holding # rest', total')))"

text \<open>The report returned for a wallet without holdings.\<close>

definition emptyWalletReport :: "string \<Rightarrow> string \<Rightarrow> int \<Rightarrow> string \<Rightarrow> RiskReport" where
  "emptyWalletReport now walletAddress' chainId' chainName' =
     \<lparr> walletAddress = walletAddress',
       analyzedAt = now,
       chainId = chainId',
       chainName = chainName',
       totalTokensFound = 0,
       estimatedPortfolioUsd = 0,
       overallRiskScore = 0,
       riskLevel = LOW,
       tokenRisks = [],
       RiskReport.flags =
         \<lparr> concentrationRisk = False, rugPullRisk = False,
           lowLiquidityRisk = False, highVolatilityRisk = False \<rparr>,
       summary = ''Wallet '' @ slice_first6 walletAddress' @ ''...'' @ slice_last4 walletAddress'
                 @ '' has no ERC-20 token holdings.'',
       recommendations =
         [''No tokens found. Wallet may only hold native currency (ETH/BNB/MATIC).''] \<rparr>"

text \<open>
  The first two arguments are the timestamp and \<open>parseFloat\<close>. The result is the report
  with the calls made, in order.
\<close>

definition analyzeWallet ::
  "string \<Rightarrow> (string \<Rightarrow> error + real) \<Rightarrow> Collectors \<Rightarrow> AnalyzeRequest
     \<Rightarrow> error + (RiskReport \<times> Call list)" where
  "analyzeWallet now parseFloat env req =
     (let walletAddress' = AnalyzeRequest.walletAddress req;
          chainId' = requestChain req;
          chainName' = chainNameOf chainId';
          holdings = getTokenHoldings env walletAddress' chainId';
          calls1 = [CallGetTokenHoldings walletAddress' chainId']
      in if length holdings = 0
           then Inr (emptyWalletReport now walletAddress' chainId' chainName', calls1)
         else
           (let contractAddresses = map TokenHolding.contractAddress holdings;
                dexDataMap = batchGetDexData env contractAddresses chainId';
                verifiedResults = map (\<lambda>addr. Collectors.isContractVerified env addr chainId') contractAddresses;
                calls2 = calls1 @ [CallBatchGetDexData contractAddresses chainId']
                           @ map (\<lambda>addr. CallIsContractVerified addr chainId') contractAddresses;
                verifiedMap = verifiedMapOf contractAddresses verifiedResults
            in bindE (estimateUsd parseFloat dexDataMap holdings 0)
                 (\<lambda>(priced, estimatedPortfolioUsd').
                    bindE (buildRiskReport now walletAddress' chainId' chainName' priced
                             dexDataMap verifiedMap estimatedPortfolioUsd')
                      (\<lambda>report. Inr (report, calls2 @ [CallBuildRiskReport])))))"

section \<open>Notions used in the statements\<close>

text \<open>
  The sum of penalties of one token: 30 for an unverified contract; 25 for absent market
  data, or else one liquidity tier, 15 for a missing lock and 10 for a large price
  change; one concentration tier.
\<close>

definition penalty_sum :: "real \<Rightarrow> DexTokenData option \<Rightarrow> bool \<Rightarrow> int" where
  "penalty_sum p m v =
     (if v then 0 else 30)
     + (case m of
          None \<Rightarrow> 25
        | Some d \<Rightarrow>
            (if DexTokenData.liquidityUsd d < 10000 then 35
             else if DexTokenData.liquidityUsd d < 50000 then 20
             else if DexTokenData.liquidityUsd d < 500000 then 5 else 0)
            + (if DexTokenData.hasLiquidityLock d then 0 else 15)
            + (if \<bar>priceChange24h d\<bar> > 30 then 10 else 0))
     + (if p > 70 then 20 else if 50 < p \<and> p \<le> 70 then 10 else 0)"

text \<open>
  Descending by score; the arithmetic mean of the scores; the mean times 0.6 plus the
  maximum times 0.4.
\<close>

definition desc :: "TokenRisk list \<Rightarrow> bool" where
  "desc ts = sorted_wrt (\<lambda>a b. riskScore b \<le> riskScore a) ts"

definition meanScore :: "TokenRisk list \<Rightarrow> real" where
  "meanScore ts = real_of_int (sum_list (map riskScore ts)) / real (length ts)"

definition weightedScore :: "TokenRisk list \<Rightarrow> real" where
  "weightedScore ts = meanScore ts * 0.6 + real_of_int (Max (riskScore ` set ts)) * 0.4"

text \<open>
  The value of \<open>portfolioPercentOf\<close> where it is a number
  (\<open>portfolioPercentOf_value\<close> below), and the per-token results of \<open>buildRiskReport\<close>
  before the sort, in the order of the holdings (\<open>mapE_holdingRisk\<close> below).
\<close>

definition percentValue :: "real \<Rightarrow> TokenHolding list \<Rightarrow> TokenHolding \<Rightarrow> real" where
  "percentValue totalUsd holdings h =
     (case usdValue h of
        None \<Rightarrow> round_double (100 / real (length holdings))
      | Some u \<Rightarrow>
          if totalUsd > 0 \<and> u \<noteq> 0 then round_double (round_double (u / totalUsd) * 100)
          else round_double (100 / real (length holdings)))"

text \<open>
  The USD value of a holding, 0 where it is absent, and the sum of the USD values as
  \<open>analyzeWallet\<close> adds them up: from 0, in the order of the list, each addition rounded
  to a double (\<open>estimateUsd_values\<close> below).
\<close>

definition usdOf :: "TokenHolding \<Rightarrow> real" where
  "usdOf h = (case usdValue h of None \<Rightarrow> 0 | Some u \<Rightarrow> u)"

definition runningTotal :: "TokenHolding list \<Rightarrow> real" where
  "runningTotal holdings = foldl (\<lambda>acc h. round_double (acc + usdOf h)) 0 holdings"

definition perTokenResults ::
  "TokenHolding list \<Rightarrow> (string \<rightharpoonup> DexTokenData option) \<Rightarrow> (string \<rightharpoonup> bool) \<Rightarrow> real \<Rightarrow> TokenRisk list" where
  "perTokenResults holdings dexDataMap verifiedMap totalUsd =
     map (\<lambda>h. scoreTokenRisk h (percentValue totalUsd holdings h)
                 (get_or_null dexDataMap (TokenHolding.contractAddress h))
                 (get_or_false verifiedMap (TokenHolding.contractAddress h))) holdings"

text \<open>
  The value of \<open>recommendationItems\<close>, which has no error (\<open>recommendationItems_Inr\<close>
  below), and the diversification advisories among recommendations.
\<close>

definition recommendationList :: "TokenRisk list \<Rightarrow> int \<Rightarrow> Recommendation list" where
  "recommendationList ts overall =
     (let highRisk = filter (\<lambda>t. riskScore t \<ge> 70) ts;
          unverified = filter (\<lambda>t. \<not> isContractVerified t) ts;
          lowLiquidity = filter (\<lambda>t. TokenRisk.liquidityUsd t < 50000 \<and> TokenRisk.liquidityUsd t > 0) ts;
          concentrated = filter (\<lambda>t. portfolioPercentage t > 50) ts
      in (if highRisk \<noteq> [] then [ReduceHighRisk (map TokenRisk.symbol highRisk)] else [])
         @ (if unverified \<noteq> [] then [ResearchUnverified (length unverified) (map TokenRisk.symbol unverified)] else [])
         @ (if lowLiquidity \<noteq> [] then [LowLiquidityExit (map TokenRisk.symbol lowLiquidity)] else [])
         @ (if concentrated \<noteq> []
              then [Diversify (TokenRisk.symbol (hd concentrated)) (portfolioPercentage (hd concentrated))]
            else [])
         @ (if overall < 30 then [LooksSafe] else []))"


section \<open>Example inputs\<close>

text \<open>
  A wallet and a timestamp; three priced holdings X (80 USD), Y (15 USD) and Z (5 USD) of
  a portfolio of 100 USD with their market data, their TokenRisk entries and the report.
\<close>

definition walletEx :: string where
  "walletEx = ''0xd8dA6BF26964aF9D7eEd9e03E53415D37aA96045''"

definition nowEx :: string where
  "nowEx = ''2026-01-01T00:00:00.000Z''"

definition holdingX :: TokenHolding where
  "holdingX = \<lparr> TokenHolding.contractAddress = ''0xaa'', tokenName = ''Token X'', tokenSymbol = ''XTK'',
                 balance = ''8000'', decimals = 2, usdValue = Some 80 \<rparr>"

definition holdingY :: TokenHolding where
  "holdingY = \<lparr> TokenHolding.contractAddress = ''0xbb'', tokenName = ''Token Y'', tokenSymbol = ''YTK'',
                 balance = ''1500'', decimals = 2, usdValue = Some 15 \<rparr>"

definition holdingZ :: TokenHolding where
  "holdingZ = \<lparr> TokenHolding.contractAddress = ''0xcc'', tokenName = ''Token Z'', tokenSymbol = ''ZTK'',
                 balance = ''500'', decimals = 2, usdValue = Some 5 \<rparr>"

definition dexX :: DexTokenData where
  "dexX = \<lparr> DexTokenData.symbol = ''XTK'', DexTokenData.priceUsd = 1, DexTokenData.liquidityUsd = 5000,
             marketCapUsd = 100000, volume24h = 300, priceChange24h = 2,
             DexTokenData.hasLiquidityLock = False, dexUrl = ''https://dexscreener.com/x'' \<rparr>"

definition dexY :: DexTokenData where
  "dexY = \<lparr> DexTokenData.symbol = ''YTK'', DexTokenData.priceUsd = 1, DexTokenData.liquidityUsd = 1000000,
             marketCapUsd = 90000000, volume24h = 70000, priceChange24h = 0,
             DexTokenData.hasLiquidityLock = True, dexUrl = ''https://dexscreener.com/y'' \<rparr>"

definition dexZ :: DexTokenData where
  "dexZ = \<lparr> DexTokenData.symbol = ''ZTK'', DexTokenData.priceUsd = 1, DexTokenData.liquidityUsd = 700000,
             marketCapUsd = 5000000, volume24h = 20000, priceChange24h = 1,
             DexTokenData.hasLiquidityLock = True, dexUrl = ''https://dexscreener.com/z'' \<rparr>"

definition dexMapXYZ :: "string \<rightharpoonup> DexTokenData option" where
  "dexMapXYZ = [''0xaa'' \<mapsto> Some dexX, ''0xbb'' \<mapsto> Some dexY, ''0xcc'' \<mapsto> Some dexZ]"

definition verifiedXYZ :: "string \<rightharpoonup> bool" where
  "verifiedXYZ = [''0xaa'' \<mapsto> True, ''0xbb'' \<mapsto> True, ''0xcc'' \<mapsto> True]"

definition riskX :: TokenRisk where
  "riskX = \<lparr> TokenRisk.symbol = ''XTK'', TokenRisk.contractAddress = ''0xaa'', portfolioPercentage = 80,
              TokenRisk.liquidityUsd = 5000, isContractVerified = True, TokenRisk.hasLiquidityLock = False,
              riskScore = 70,
              TokenRisk.flags = [CriticallyLowLiquidityFlag 5000, NoLiquidityLockFlag,
                                 ExtremeConcentrationFlag 80] \<rparr>"

definition riskY :: TokenRisk where
  "riskY = \<lparr> TokenRisk.symbol = ''YTK'', TokenRisk.contractAddress = ''0xbb'', portfolioPercentage = 15,
              TokenRisk.liquidityUsd = 1000000, isContractVerified = True, TokenRisk.hasLiquidityLock = True,
              riskScore = 0, TokenRisk.flags = [] \<rparr>"

definition riskZ :: TokenRisk where
  "riskZ = \<lparr> TokenRisk.symbol = ''ZTK'', TokenRisk.contractAddress = ''0xcc'', portfolioPercentage = 5,
              TokenRisk.liquidityUsd = 700000, isContractVerified = True, TokenRisk.hasLiquidityLock = True,
              riskScore = 0, TokenRisk.flags = [] \<rparr>"

definition reportXYZ :: RiskReport where
  "reportXYZ =
     \<lparr> walletAddress = walletEx, analyzedAt = nowEx, chainId = 1, chainName = ''Ethereum Mainnet'',
       totalTokensFound = 3, estimatedPortfolioUsd = 100, overallRiskScore = 42, riskLevel = MEDIUM,
       tokenRisks = [riskX, riskY, riskZ],
       RiskReport.flags = \<lparr> concentrationRisk = True, rugPullRisk = False,
                            lowLiquidityRisk = True, highVolatilityRisk = True \<rparr>,
       summary = ''Wallet 0xd8dA...6045 has a MEDIUM risk profile (score: 42/100) across 3 token(s). ''
                 @ ''Highest risk token: XTK (70/100). ''
                 @ ''Analysis powered by Crypto Risk Analyzer Agent on Virtuals ACP.'',
       recommendations =
         [''Consider reducing or exiting high-risk positions: XTK'',
          ''Low liquidity tokens may be hard to exit quickly: XTK'',
          ''Portfolio is highly concentrated in XTK (80%) '' @ em_dash @ '' consider diversifying''] \<rparr>"

text \<open>
  One holding without a USD value, market data or verification, in a portfolio of
  unknown value.
\<close>

definition holdingS :: TokenHolding where
  "holdingS = \<lparr> TokenHolding.contractAddress = ''0xa1'', tokenName = ''Scam Token'', tokenSymbol = ''SCAM'',
                 balance = ''1000'', decimals = 18, usdValue = None \<rparr>"

definition riskS :: TokenRisk where
  "riskS = \<lparr> TokenRisk.symbol = ''SCAM'', TokenRisk.contractAddress = ''0xa1'', portfolioPercentage = 100,
              TokenRisk.liquidityUsd = 0, isContractVerified = False, TokenRisk.hasLiquidityLock = False,
              riskScore = 75,
              TokenRisk.flags = [NotVerifiedFlag, NoDexDataFlag, ExtremeConcentrationFlag 100] \<rparr>"

definition reportS :: RiskReport where
  "reportS =
     \<lparr> walletAddress = walletEx, analyzedAt = nowEx, chainId = 1, chainName = ''Ethereum Mainnet'',
       totalTokensFound = 1, estimatedPortfolioUsd = 0, overallRiskScore = 75, riskLevel = CRITICAL,
       tokenRisks = [riskS],
       RiskReport.flags = \<lparr> concentrationRisk = True, rugPullRisk = True,
                            lowLiquidityRisk = False, highVolatilityRisk = True \<rparr>,
       summary = ''Wallet 0xd8dA...6045 has a CRITICAL risk profile (score: 75/100) across 1 token(s). ''
                 @ ''Highest risk token: SCAM (75/100). ''
                 @ ''Analysis powered by Crypto Risk Analyzer Agent on Virtuals ACP.'',
       recommendations =
         [''Consider reducing or exiting high-risk positions: SCAM'',
          ''1 token(s) have unverified contracts '' @ em_dash
            @ '' research thoroughly before holding: SCAM'',
          ''Portfolio is highly concentrated in SCAM (100%) '' @ em_dash @ '' consider diversifying''] \<rparr>"









text \<open>
  A holding whose USD value is zero, beside one of 100 USD, and the TokenRisk entry of
  the former in a portfolio of 100 USD.
\<close>

definition holdingPriced :: TokenHolding where
  "holdingPriced = \<lparr> TokenHolding.contractAddress = ''0xd1'', tokenName = ''Priced'', tokenSymbol = ''PRC'',
                      balance = ''10000'', decimals = 2, usdValue = Some 100 \<rparr>"

definition holdingZero :: TokenHolding where
  "holdingZero = \<lparr> TokenHolding.contractAddress = ''0xd2'', tokenName = ''Dust'', tokenSymbol = ''DST'',
                    balance = ''000'', decimals = 2, usdValue = Some 0 \<rparr>"

definition riskZero :: TokenRisk where
  "riskZero = \<lparr> TokenRisk.symbol = ''DST'', TokenRisk.contractAddress = ''0xd2'', portfolioPercentage = 50,
                 TokenRisk.liquidityUsd = 0, isContractVerified = False, TokenRisk.hasLiquidityLock = False,
                 riskScore = 55, TokenRisk.flags = [NotVerifiedFlag, NoDexDataFlag] \<rparr>"

text \<open>
  A holding of 23 USD, for a portfolio of 40 USD: neither the quotient nor its product
  with 100 is a double.
\<close>

definition holdingQ :: TokenHolding where
  "holdingQ = \<lparr> TokenHolding.contractAddress = ''0xe1'', tokenName = ''Token Q'', tokenSymbol = ''QQQ'',
                 balance = ''2300'', decimals = 2, usdValue = Some 23 \<rparr>"

text \<open>
  Collectors that find nothing, a request without chain identifier, a \<open>parseFloat\<close> that
  reads the one price string of the examples, and DexScreener pairs: two on Ethereum
  with 120000 and 250000 USD of liquidity, one on another chain, one on Ethereum with
  80000 USD.
\<close>

definition emptyCollectors :: Collectors where
  "emptyCollectors =
     \<lparr> getTokenHoldings = (\<lambda>wallet chain. []),
       batchGetDexData = (\<lambda>addrs chain. Map.empty),
       Collectors.isContractVerified = (\<lambda>addr chain. None) \<rparr>"

definition requestEx :: AnalyzeRequest where
  "requestEx = \<lparr> AnalyzeRequest.walletAddress = walletEx, AnalyzeRequest.chainId = None \<rparr>"

definition parseFloatEx :: "string \<Rightarrow> error + real" where
  "parseFloatEx s = (if s = ''1.5'' then Inr (3 / 2) else Inl NotFinite)"

definition pairSmall :: DexPair where
  "pairSmall = \<lparr> DexPair.chainId = ''ethereum'', baseToken = Some (Some ''XTK''),
                  DexPair.priceUsd = Some ''1.5'', liquidity = Some (Some 120000),
                  marketCap = Some 4000000, volume = Some (Some 9000),
                  priceChange = Some (Some 2), url = Some ''https://dexscreener.com/p1'' \<rparr>"

definition pairBest :: DexPair where
  "pairBest = \<lparr> DexPair.chainId = ''ethereum'', baseToken = Some (Some ''XTK''),
                 DexPair.priceUsd = Some ''1.5'', liquidity = Some (Some 250000),
                 marketCap = Some 4000000, volume = Some (Some 30000),
                 priceChange = Some (Some 2), url = Some ''https://dexscreener.com/p2'' \<rparr>"

definition pairOtherChain :: DexPair where
  "pairOtherChain = \<lparr> DexPair.chainId = ''bsc'', baseToken = Some (Some ''XTK''),
                       DexPair.priceUsd = Some ''1.5'', liquidity = Some (Some 900000),
                       marketCap = None, volume = None,
                       priceChange = None, url = None \<rparr>"

definition pairThin :: DexPair where
  "pairThin = \<lparr> DexPair.chainId = ''ethereum'', baseToken = Some (Some ''THN''),
                 DexPair.priceUsd = Some ''1.5'', liquidity = Some (Some 80000),
                 marketCap = None, volume = None,
                 priceChange = None, url = None \<rparr>"

definition dexBest :: DexTokenData where
  "dexBest = \<lparr> DexTokenData.symbol = ''XTK'', DexTokenData.priceUsd = 3 / 2,
                DexTokenData.liquidityUsd = 250000, marketCapUsd = 4000000, volume24h = 30000,
                priceChange24h = 2, DexTokenData.hasLiquidityLock = True,
                dexUrl = ''https://dexscreener.com/p2'' \<rparr>"

definition dexThin :: DexTokenData where
  "dexThin = \<lparr> DexTokenData.symbol = ''THN'', DexTokenData.priceUsd = 3 / 2,
                DexTokenData.liquidityUsd = 80000, marketCapUsd = 0, volume24h = 0,
                priceChange24h = 0, DexTokenData.hasLiquidityLock = False, dexUrl = [] \<rparr>"

text \<open>
  A holding of 1.5 tokens, without decimals and without USD value, of the token priced at
  1.5 USD by \<open>dexBest\<close>.
\<close>

definition holdingF :: TokenHolding where
  "holdingF = \<lparr> TokenHolding.contractAddress = ''0xf1'', tokenName = ''Token F'', tokenSymbol = ''FFF'',
                 balance = ''1.5'', decimals = 0, usdValue = None \<rparr>"

section \<open>Lemmas\<close>

subsection \<open>The score of a token\<close>

lemma fst_verification_check:
  "fst (verification_check v s) = fst s + (if v then 0 else 30)"
  by (simp add: verification_check_def add_risk_def)

lemma fst_liquidity_checks:
  "fst (liquidity_checks m s) = fst s +
     (case m of
        None \<Rightarrow> 25
      | Some d \<Rightarrow>
          (if DexTokenData.liquidityUsd d < 10000 then 35
           else if DexTokenData.liquidityUsd d < 50000 then 20
           else if DexTokenData.liquidityUsd d < 500000 then 5 else 0)
          + (if DexTokenData.hasLiquidityLock d then 0 else 15)
          + (if \<bar>priceChange24h d\<bar> > 30 then 10 else 0))"
  by (cases m) (simp_all add: liquidity_checks_def add_risk_def Math_abs_def Let_def abs_if)

lemma fst_concentration_check:
  "fst (concentration_check p s) = fst s +
     (if p > 70 then 20 else if 50 < p \<and> p \<le> 70 then 10 else 0)"
  by (simp add: concentration_check_def add_risk_def)

lemma riskScore_scoreTokenRisk:
  "riskScore (scoreTokenRisk h p m v) = min 100 (penalty_sum p m v)"
  by (simp add: scoreTokenRisk_def Let_def Math_min_def penalty_sum_def min_def
      fst_verification_check fst_liquidity_checks fst_concentration_check)

lemma penalty_sum_nonneg: "0 \<le> penalty_sum p m v"
  by (cases m) (simp_all add: penalty_sum_def)

lemma riskScore_range:
  "0 \<le> riskScore (scoreTokenRisk h p m v) \<and> riskScore (scoreTokenRisk h p m v) \<le> 100"
  using penalty_sum_nonneg [of p m v] by (simp add: riskScore_scoreTokenRisk)

lemma liquidity_flags_locked:
  assumes "DexTokenData.liquidityUsd d > 100000"
  shows "CriticallyLowLiquidityFlag x \<notin> set (TokenRisk.flags (scoreTokenRisk h p (Some d) v))
       \<and> LowLiquidityFlag x \<notin> set (TokenRisk.flags (scoreTokenRisk h p (Some d) v))"
  using assms
  by (simp add: scoreTokenRisk_def Let_def verification_check_def liquidity_checks_def
      concentration_check_def add_risk_def)

subsection \<open>The sort: a permutation, descending and stable\<close>

lemma mset_insert_by: "mset (insert_by cmp x ys) = add_mset x (mset ys)"
  by (induction ys) auto

lemma mset_Array_sort: "mset (Array_sort cmp xs) = mset xs"
  by (induction xs) (auto simp: Array_sort_def mset_insert_by)

lemma set_Array_sort: "set (Array_sort cmp xs) = set xs"
  using mset_Array_sort [of cmp xs] by (metis set_mset_mset)

lemma length_Array_sort: "length (Array_sort cmp xs) = length xs"
  using mset_Array_sort [of cmp xs] by (metis size_mset)

lemma Array_sort_Cons: "Array_sort cmp (x # xs) = insert_by cmp x (Array_sort cmp xs)"
  by (simp add: Array_sort_def)

lemma Array_sort_Nil: "Array_sort cmp [] = []"
  by (simp add: Array_sort_def)

lemma set_insert_by: "set (insert_by cmp x ys) = insert x (set ys)"
  by (induction ys) auto

lemma desc_insert_by: "desc ys \<Longrightarrow> desc (insert_by byRiskDesc x ys)"
  by (induction ys) (auto simp: desc_def byRiskDesc_def set_insert_by)

lemma desc_Array_sort: "desc (Array_sort byRiskDesc xs)"
  by (induction xs) (auto simp: Array_sort_Cons Array_sort_Nil desc_insert_by, simp add: desc_def)

lemma filter_insert_by_other:
  "riskScore x \<noteq> k \<Longrightarrow>
   filter (\<lambda>t. riskScore t = k) (insert_by byRiskDesc x ys) = filter (\<lambda>t. riskScore t = k) ys"
  by (induction ys) auto

lemma filter_insert_by_same:
  "desc ys \<Longrightarrow>
   filter (\<lambda>t. riskScore t = riskScore x) (insert_by byRiskDesc x ys)
     = x # filter (\<lambda>t. riskScore t = riskScore x) ys"
  by (induction ys) (auto simp: desc_def byRiskDesc_def)

lemma Array_sort_stable:
  "filter (\<lambda>t. riskScore t = k) (Array_sort byRiskDesc xs) = filter (\<lambda>t. riskScore t = k) xs"
proof (induction xs)
  case Nil
  show ?case by (simp add: Array_sort_Nil)
next
  case (Cons x xs)
  show ?case
  proof (cases "riskScore x = k")
    case True
    then show ?thesis
      using Cons filter_insert_by_same [OF desc_Array_sort, of x xs]
      by (simp add: Array_sort_Cons)
  next
    case False
    then show ?thesis
      using Cons by (simp add: Array_sort_Cons filter_insert_by_other)
  qed
qed

subsection \<open>Mean, maximum and rounding\<close>

lemma foldl_riskScore: "foldl (\<lambda>sum t. sum + riskScore t) a ts = a + sum_list (map riskScore ts)"
  by (induction ts arbitrary: a) auto

lemma sum_list_Array_sort:
  "sum_list (map riskScore (Array_sort cmp ts)) = sum_list (map riskScore ts)"
proof -
  have "mset (map riskScore (Array_sort cmp ts)) = mset (map riskScore ts)"
    by (simp add: mset_Array_sort)
  then show ?thesis by (metis sum_mset_sum_list)
qed

lemma meanScore_Array_sort: "meanScore (Array_sort cmp ts) = meanScore ts"
  by (simp add: meanScore_def sum_list_Array_sort length_Array_sort)

lemma int_or_zero: "int_or x 0 = x"
  by (simp add: int_or_def)

lemma desc_hd_Max: "desc (t # ts) \<Longrightarrow> riskScore t = Max (riskScore ` set (t # ts))"
proof -
  assume d: "desc (t # ts)"
  have "\<forall>s\<in>set (t # ts). riskScore s \<le> riskScore t"
    using d by (auto simp: desc_def)
  then show ?thesis
    by (intro Max_eqI [symmetric]) auto
qed

lemma maxScoreOf_sorted:
  assumes "ts \<noteq> []"
  shows "maxScoreOf (Array_sort byRiskDesc ts) = Max (riskScore ` set ts)"
proof -
  obtain t us where e: "Array_sort byRiskDesc ts = t # us"
    using assms length_Array_sort [of byRiskDesc ts] by (cases "Array_sort byRiskDesc ts") auto
  have "desc (t # us)" using desc_Array_sort [of ts] e by simp
  then have "riskScore t = Max (riskScore ` set (t # us))" by (rule desc_hd_Max)
  also have "set (t # us) = set ts" using set_Array_sort [of byRiskDesc ts] e by simp
  finally show ?thesis by (simp add: maxScoreOf_def e int_or_zero)
qed

lemma avgScoreOf_sorted:
  assumes "ts \<noteq> []"
  shows "avgScoreOf (Array_sort byRiskDesc ts) = Inr (meanScore ts)"
  using assms
  by (simp add: avgScoreOf_def js_div_def length_Array_sort foldl_riskScore sum_list_Array_sort meanScore_def)

lemma overallScoreOf_sorted:
  assumes "ts \<noteq> []"
  shows "overallScoreOf (Array_sort byRiskDesc ts)
           = Inr (Math_round (meanScore ts * 0.6 + real_of_int (Max (riskScore ` set ts)) * 0.4))"
  using assms by (simp add: overallScoreOf_def avgScoreOf_sorted maxScoreOf_sorted bindE_def)

lemma overallScoreOf_total: "\<exists>s. overallScoreOf ts = Inr s"
  by (simp add: overallScoreOf_def avgScoreOf_def js_div_def bindE_def)

lemma Math_round_closest: "\<bar>real_of_int (Math_round x) - x\<bar> \<le> \<bar>real_of_int k - x\<bar>"
proof -
  let ?r = "\<lfloor>x + 1 / 2\<rfloor>"
  have b: "real_of_int ?r \<le> x + 1 / 2" "x + 1 / 2 < real_of_int ?r + 1" by linarith+
  consider "k \<le> ?r - 1" | "k = ?r" | "?r + 1 \<le> k" by linarith
  then show ?thesis
  proof cases
    case 1
    then have "real_of_int k \<le> real_of_int ?r - 1" by (metis of_int_le_iff of_int_diff of_int_1)
    then show ?thesis using b unfolding Math_round_def by linarith
  next
    case 2
    then show ?thesis by (simp add: Math_round_def)
  next
    case 3
    then have "real_of_int ?r + 1 \<le> real_of_int k" by (metis of_int_le_iff of_int_add of_int_1)
    then show ?thesis using b unfolding Math_round_def by linarith
  qed
qed

lemma Math_round_between:
  "real_of_int a \<le> x \<Longrightarrow> x \<le> real_of_int b \<Longrightarrow> a \<le> Math_round x \<and> Math_round x \<le> b"
  unfolding Math_round_def by linarith

lemma meanScore_bounds:
  assumes "ts \<noteq> []"
  shows "real_of_int (Min (riskScore ` set ts)) \<le> meanScore ts"
    and "meanScore ts \<le> real_of_int (Max (riskScore ` set ts))"
proof -
  let ?n = "length ts"
  have n: "0 < real ?n" using assms by simp
  have lo: "\<forall>t\<in>set ts. Min (riskScore ` set ts) \<le> riskScore t" by simp
  have hi: "\<forall>t\<in>set ts. riskScore t \<le> Max (riskScore ` set ts)" by simp
  have "sum_list (map (\<lambda>t. Min (riskScore ` set ts)) ts) \<le> sum_list (map riskScore ts)"
    using lo by (intro sum_list_mono) auto
  then have a: "int ?n * Min (riskScore ` set ts) \<le> sum_list (map riskScore ts)"
    by (simp add: sum_list_triv)
  have "sum_list (map riskScore ts) \<le> sum_list (map (\<lambda>t. Max (riskScore ` set ts)) ts)"
    using hi by (intro sum_list_mono) auto
  then have b: "sum_list (map riskScore ts) \<le> int ?n *  Max (riskScore ` set ts)"
    by (simp add: sum_list_triv)
  have "real ?n * real_of_int (Min (riskScore ` set ts)) \<le> real_of_int (sum_list (map riskScore ts))"
    using a by (metis of_int_le_iff of_int_mult of_int_of_nat_eq)
  then show "real_of_int (Min (riskScore ` set ts)) \<le> meanScore ts"
    using n by (simp add: meanScore_def pos_le_divide_eq mult.commute)
  have "real_of_int (sum_list (map riskScore ts)) \<le> real ?n * real_of_int (Max (riskScore ` set ts))"
    using b by (metis of_int_le_iff of_int_mult of_int_of_nat_eq)
  then show "meanScore ts \<le> real_of_int (Max (riskScore ` set ts))"
    using n by (simp add: meanScore_def pos_divide_le_eq mult.commute)
qed

lemma Min_le_Max_scores:
  assumes "ts \<noteq> []"
  shows "Min (riskScore ` set ts) \<le> Max (riskScore ` set ts)"
  using assms by (simp add: Min_le_iff)

lemma weighted_bounds:
  assumes "ts \<noteq> []"
  shows "real_of_int (Min (riskScore ` set ts))
           \<le> meanScore ts * 0.6 + real_of_int (Max (riskScore ` set ts)) * 0.4"
    and "meanScore ts * 0.6 + real_of_int (Max (riskScore ` set ts)) * 0.4
           \<le> real_of_int (Max (riskScore ` set ts))"
proof -
  have m: "real_of_int (Min (riskScore ` set ts)) \<le> real_of_int (Max (riskScore ` set ts))"
    using Min_le_Max_scores [OF assms] by simp
  show "real_of_int (Min (riskScore ` set ts))
           \<le> meanScore ts * 0.6 + real_of_int (Max (riskScore ` set ts)) * 0.4"
    using meanScore_bounds(1) [OF assms] m by simp
  show "meanScore ts * 0.6 + real_of_int (Max (riskScore ` set ts)) * 0.4
           \<le> real_of_int (Max (riskScore ` set ts))"
    using meanScore_bounds(2) [OF assms] by simp
qed

lemma overall_single: "Math_round (meanScore [t] * 0.6 + real_of_int (Max (riskScore ` set [t])) * 0.4) = riskScore t"
proof -
  have "meanScore [t] * 0.6 + real_of_int (riskScore t) * 0.4 = real_of_int (riskScore t)"
    by (simp add: meanScore_def)
  then show ?thesis by (simp add: Math_round_def)
qed

subsection \<open>Rounding to a double: monotone, and exact on doubles\<close>

lemma binade_between_spec:
  "lo < hi \<Longrightarrow>
     lo \<le> binade_between a lo hi \<and> binade_between a lo hi < hi
     \<and> (2 powi binade_between a lo hi \<le> a \<or> binade_between a lo hi = lo)
     \<and> (a < 2 powi (binade_between a lo hi + 1) \<or> binade_between a lo hi = hi - 1)"
proof (induction a lo hi rule: binade_between.induct)
  case (1 a lo hi)
  show ?case
  proof (cases "hi \<le> lo + 1")
    case True
    then show ?thesis using "1.prems" by (simp add: binade_between.simps [of a lo hi])
  next
    case False
    let ?mid = "(lo + hi) div 2"
    have m: "lo < ?mid" "?mid < hi" using False by linarith+
    show ?thesis
    proof (cases "2 powi ?mid \<le> a")
      case True
      have e: "binade_between a lo hi = binade_between a ?mid hi"
        using False True by (simp add: binade_between.simps [of a lo hi] Let_def)
      from "1.IH"(1) [OF False refl True m(2)] show ?thesis
        unfolding e using m True by auto
    next
      case F2: False
      have e: "binade_between a lo hi = binade_between a lo ?mid"
        using False F2 by (simp add: binade_between.simps [of a lo hi] Let_def)
      from "1.IH"(2) [OF False refl F2 m(1)]
      have ih: "lo \<le> binade_between a lo ?mid" "binade_between a lo ?mid < ?mid"
        "2 powi binade_between a lo ?mid \<le> a \<or> binade_between a lo ?mid = lo"
        "a < 2 powi (binade_between a lo ?mid + 1) \<or> binade_between a lo ?mid = ?mid - 1"
        by simp_all
      have "a < 2 powi (binade_between a lo ?mid + 1)"
      proof (cases "binade_between a lo ?mid = ?mid - 1")
        case True
        then have "binade_between a lo ?mid + 1 = ?mid" by simp
        then show ?thesis using F2 by simp
      next
        case False
        then show ?thesis using ih(4) by blast
      qed
      then show ?thesis
        unfolding e using ih(1,2,3) m by simp
    qed
  qed
qed

lemma binade_spec:
  "- 1022 \<le> binade x \<and> binade x \<le> 1023
   \<and> (2 powi binade x \<le> \<bar>x\<bar> \<or> binade x = - 1022)
   \<and> (\<bar>x\<bar> < 2 powi (binade x + 1) \<or> binade x = 1023)"
  using binade_between_spec [of "- 1022" 1024 "\<bar>x\<bar>"] by (simp add: binade_def)

lemma binade_unique:
  assumes "2 powi e \<le> \<bar>x\<bar> \<or> e = - 1022" and "\<bar>x\<bar> < 2 powi (e + 1) \<or> e = 1023"
    and "- 1022 \<le> e" and "e \<le> 1023"
  shows "binade x = e"
proof (rule ccontr)
  assume ne: "binade x \<noteq> e"
  note s = binade_spec [of x]
  show False
  proof (cases "binade x < e")
    case True
    then have a: "\<bar>x\<bar> < 2 powi (binade x + 1)" using s assms(4) by linarith
    have "2 powi e \<le> \<bar>x\<bar>" using assms(1) True s by linarith
    moreover have "(2::real) powi (binade x + 1) \<le> 2 powi e"
      using True by (intro power_int_increasing) auto
    ultimately show False using a by linarith
  next
    case False
    then have g: "e < binade x" using ne by linarith
    then have a: "2 powi binade x \<le> \<bar>x\<bar>" using s assms(3) by linarith
    have "\<bar>x\<bar> < 2 powi (e + 1)" using assms(2) g s by linarith
    moreover have "(2::real) powi (e + 1) \<le> 2 powi binade x"
      using g by (intro power_int_increasing) auto
    ultimately show False using a by linarith
  qed
qed

lemma binade_mono:
  assumes "\<bar>x\<bar> \<le> \<bar>y\<bar>"
  shows "binade x \<le> binade y"
proof (rule ccontr)
  assume "\<not> binade x \<le> binade y"
  then have g: "binade y < binade x" by simp
  note sx = binade_spec [of x] and sy = binade_spec [of y]
  have "2 powi binade x \<le> \<bar>x\<bar>" using sx sy g by linarith
  moreover have "\<bar>y\<bar> < 2 powi (binade y + 1)" using sx sy g by linarith
  moreover have "(2::real) powi (binade y + 1) \<le> 2 powi binade x"
    using g by (intro power_int_increasing) auto
  ultimately show False using assms by linarith
qed

lemma round_even_int: "round_even (real_of_int k) = k"
  by (simp add: round_even_def)

lemma round_even_bounds: "\<lfloor>y\<rfloor> \<le> round_even y \<and> round_even y \<le> \<lfloor>y\<rfloor> + 1"
  by (simp add: round_even_def Let_def)

lemma round_even_mono:
  assumes "a \<le> b"
  shows "round_even a \<le> round_even b"
proof (cases "\<lfloor>a\<rfloor> = \<lfloor>b\<rfloor>")
  case True
  have "a - real_of_int \<lfloor>a\<rfloor> \<le> b - real_of_int \<lfloor>b\<rfloor>" using assms True by simp
  then show ?thesis unfolding round_even_def Let_def True by auto
next
  case False
  have "\<lfloor>a\<rfloor> \<le> \<lfloor>b\<rfloor>" using assms by (rule floor_mono)
  then have "\<lfloor>a\<rfloor> + 1 \<le> \<lfloor>b\<rfloor>" using False by linarith
  then show ?thesis using round_even_bounds [of a] round_even_bounds [of b] by linarith
qed

lemma round_double_mono:
  assumes "0 \<le> x" and "x \<le> y"
  shows "round_double x \<le> round_double y"
proof -
  have le: "binade x \<le> binade y" using assms by (intro binade_mono) simp
  show ?thesis
  proof (cases "binade x = binade y")
    case True
    let ?q = "(2::real) powi (binade y - 52)"
    have q: "0 < ?q" by simp
    have "x / ?q \<le> y / ?q" using assms(2) q by (simp add: divide_right_mono)
    then have "round_even (x / ?q) \<le> round_even (y / ?q)" by (rule round_even_mono)
    then have "real_of_int (round_even (x / ?q)) * ?q \<le> real_of_int (round_even (y / ?q)) * ?q"
      using q by (simp add: mult_right_mono)
    then show ?thesis by (simp add: round_double_def Let_def True)
  next
    case False
    then have g: "binade x < binade y" using le by simp
    note sx = binade_spec [of x] and sy = binade_spec [of y]
    let ?qx = "(2::real) powi (binade x - 52)" and ?qy = "(2::real) powi (binade y - 52)"
    have qx: "0 < ?qx" and qy: "0 < ?qy" by simp_all
    have ax: "x < 2 powi (binade x + 1)" using sx sy g assms(1) by force
    have ay: "2 powi binade y \<le> y" using sx sy g assms by force
    have px: "(2::real) powi (binade x + 1) = 2 ^ 53 * ?qx"
      by (simp add: power_int_diff power_int_add)
    have py: "(2::real) powi binade y = 2 ^ 52 * ?qy"
      by (simp add: power_int_diff)
    have "x / ?qx \<le> 2 ^ 53" using ax qx by (simp add: px pos_divide_le_eq)
    then have "round_even (x / ?qx) \<le> round_even (real_of_int (2 ^ 53))"
      by (intro round_even_mono) simp
    then have "real_of_int (round_even (x / ?qx)) \<le> 2 ^ 53"
      unfolding round_even_int by (metis of_int_le_iff of_int_numeral of_int_power)
    then have 1: "round_double x \<le> 2 powi (binade x + 1)"
      using qx by (simp add: round_double_def Let_def px mult_right_mono)
    have "2 ^ 52 \<le> y / ?qy" using ay qy by (simp add: py pos_le_divide_eq)
    then have "round_even (real_of_int (2 ^ 52)) \<le> round_even (y / ?qy)"
      by (intro round_even_mono) simp
    then have "2 ^ 52 \<le> real_of_int (round_even (y / ?qy))"
      unfolding round_even_int by (metis of_int_le_iff of_int_numeral of_int_power)
    then have 2: "2 powi binade y \<le> round_double y"
      using qy by (simp add: round_double_def Let_def py mult_right_mono)
    have "(2::real) powi (binade x + 1) \<le> 2 powi binade y"
      using g by (intro power_int_increasing) auto
    then show ?thesis using 1 2 by linarith
  qed
qed

text \<open>A number with a significand below \<open>2^53\<close> and an exponent from -1074 is a double.\<close>

lemma round_double_exact:
  assumes "x = real_of_int m * 2 powi k" and "\<bar>m\<bar> < 2 ^ 53" and "- 1074 \<le> k"
  shows "round_double x = x"
proof -
  note s = binade_spec [of x]
  have k: "binade x - 52 \<le> k"
  proof (cases "binade x = - 1022")
    case True
    then show ?thesis using assms(3) by simp
  next
    case False
    then have "2 powi binade x \<le> \<bar>x\<bar>" using s by blast
    also have "\<bar>x\<bar> = \<bar>real_of_int m\<bar> * 2 powi k" by (simp add: assms(1) abs_mult)
    also have "\<dots> < 2 ^ 53 * 2 powi k"
    proof -
      have "\<bar>real_of_int m\<bar> < 2 ^ 53"
        using assms(2) by (metis of_int_abs of_int_less_iff of_int_numeral of_int_power)
      then show ?thesis by (simp add: mult_strict_right_mono)
    qed
    also have "\<dots> = 2 powi (53 + k)" by (simp add: power_int_add)
    finally have "(2::real) powi binade x < 2 powi (53 + k)" .
    then have "binade x < 53 + k"
      by (metis linorder_not_le one_le_numeral power_int_increasing)
    then show ?thesis by simp
  qed
  define q where "q = (2::real) powi (binade x - 52)"
  define j where "j = nat (k - (binade x - 52))"
  have q: "0 < q" by (simp add: q_def)
  have "k = (binade x - 52) + int j" using k by (simp add: j_def)
  then have "(2::real) powi k = 2 powi ((binade x - 52) + int j)" by (rule arg_cong)
  also have "\<dots> = q * 2 ^ j" by (simp add: q_def power_int_add)
  finally have x: "x = real_of_int (m * 2 ^ j) * q" by (simp add: assms(1))
  then have "x / q = real_of_int (m * 2 ^ j)" using q by simp
  then have "round_even (x / q) = m * 2 ^ j" by (simp only: round_even_int)
  then have "round_double x = real_of_int (m * 2 ^ j) * q"
    by (simp add: round_double_def Let_def q_def)
  then show ?thesis using x by simp
qed

lemma round_double_eval:
  assumes "2 powi e \<le> \<bar>x\<bar>" and "\<bar>x\<bar> < 2 powi (e + 1)" and "- 1022 \<le> e" and "e \<le> 1023"
  shows "round_double x = real_of_int (round_even (x / 2 powi (e - 52))) * 2 powi (e - 52)"
  using binade_unique [of e x] assms by (simp add: round_double_def Let_def)


lemma round_double_0: "round_double 0 = 0"
  by (simp add: round_double_def round_even_def)

lemma round_double_nonneg: "0 \<le> x \<Longrightarrow> 0 \<le> round_double x"
  using round_double_mono [of 0 x] by (simp add: round_double_0)


lemma round_double_1: "round_double 1 = 1"
  using round_double_exact [of 1 1 0] by simp

lemma round_double_50: "round_double 50 = 50"
  using round_double_exact [of 50 50 0] by simp

lemma round_double_100: "round_double 100 = 100"
  using round_double_exact [of 100 100 0] by simp

lemma round_double_grid:
  assumes "x = real_of_int m * 2 powi k" and "binade x - 52 \<le> k"
  shows "round_double x = x"
proof -
  define q where "q = (2::real) powi (binade x - 52)"
  define j where "j = nat (k - (binade x - 52))"
  have q: "0 < q" by (simp add: q_def)
  have "k = (binade x - 52) + int j" using assms(2) by (simp add: j_def)
  then have "(2::real) powi k = 2 powi ((binade x - 52) + int j)" by (rule arg_cong)
  also have "\<dots> = q * 2 ^ j" by (simp add: q_def power_int_add)
  finally have x: "x = real_of_int (m * 2 ^ j) * q" by (simp add: assms(1))
  then have "x / q = real_of_int (m * 2 ^ j)" using q by simp
  then have "round_even (x / q) = m * 2 ^ j" by (simp only: round_even_int)
  then have "round_double x = real_of_int (m * 2 ^ j) * q"
    by (simp add: round_double_def Let_def q_def)
  then show ?thesis using x by simp
qed

lemma round_double_on_grid:
  "round_double x = real_of_int (round_even (x / 2 powi (binade x - 52))) * 2 powi (binade x - 52)"
  by (simp add: round_double_def Let_def)

lemma round_double_idem:
  assumes "0 \<le> x"
  shows "round_double (round_double x) = round_double x"
proof -
  define e where "e = binade x"
  define q where "q = (2::real) powi (e - 52)"
  define n where "n = round_even (x / q)"
  define r where "r = round_double x"
  have q: "0 < q" by (simp add: q_def)
  have r: "r = real_of_int n * 2 powi (e - 52)"
    by (simp add: r_def n_def q_def e_def round_double_on_grid)
  have r0: "0 \<le> r" unfolding r_def using assms by (rule round_double_nonneg)
  show ?thesis
  proof (cases "binade r \<le> e")
    case True
    then have "round_double r = r" using r by (intro round_double_grid [of r n "e - 52"]) simp_all
    then show ?thesis by (simp add: r_def)
  next
    case False
    then have g: "e < binade r" by simp
    note sx = binade_spec [of x] and sr = binade_spec [of r]
    have e: "e \<noteq> 1023" using g sr by linarith
    have "2 powi binade r \<le> \<bar>r\<bar>" using sr sx g unfolding e_def by linarith
    moreover have "(2::real) powi (e + 1) \<le> 2 powi binade r"
      using g by (intro power_int_increasing) auto
    ultimately have lo: "2 powi (e + 1) \<le> r" using r0 by simp
    have "\<bar>x\<bar> < 2 powi (e + 1)" using sx e unfolding e_def by blast
    then have "x < 2 powi (e + 1)" by simp
    moreover have p: "(2::real) powi (e + 1) = 2 ^ 53 * q"
      by (simp add: q_def power_int_diff power_int_add)
    ultimately have "x / q \<le> 2 ^ 53" using q by (simp add: pos_divide_le_eq)
    then have "round_even (x / q) \<le> round_even (real_of_int (2 ^ 53))"
      by (intro round_even_mono) simp
    then have "real_of_int n \<le> 2 ^ 53"
      unfolding round_even_int n_def by (metis of_int_le_iff of_int_numeral of_int_power)
    then have "r \<le> 2 powi (e + 1)"
      using q unfolding r p by (simp add: q_def mult_right_mono)
    then have "r = real_of_int 1 * 2 powi (e + 1)" using lo by simp
    moreover have "- 1074 \<le> e + 1" using sx unfolding e_def by linarith
    ultimately have "round_double r = r" by (intro round_double_exact [of r 1 "e + 1"]) simp_all
    then show ?thesis by (simp add: r_def)
  qed
qed


lemma to_double_small: "0 \<le> x \<Longrightarrow> x \<le> 100 \<Longrightarrow> to_double x = Inr (round_double x)"
proof -
  assume a: "0 \<le> x" "x \<le> 100"
  have "round_double x \<le> 100" using round_double_mono [OF a] by (simp add: round_double_100)
  moreover have "0 \<le> round_double x" using a(1) by (rule round_double_nonneg)
  moreover have "(100::real) < 2 ^ 1024" by simp
  ultimately show ?thesis by (simp add: to_double_def Let_def)
qed

lemma to_double_Inr: "to_double x = Inr y \<Longrightarrow> y = round_double x"
  by (simp add: to_double_def Let_def split: if_splits)

lemma equal_weight_Inr:
  assumes "hs \<noteq> []"
  shows "double_div 100 (real (length hs)) = Inr (round_double (100 / real (length hs)))"
proof -
  have n: "1 \<le> real (length hs)" using assms by (cases hs) simp_all
  then have "100 / real (length hs) \<le> 100" by (simp add: divide_le_eq)
  moreover have "0 \<le> 100 / real (length hs)" by simp
  ultimately have "to_double (100 / real (length hs)) = Inr (round_double (100 / real (length hs)))"
    by (rule to_double_small [rotated])
  then show ?thesis using assms by (simp add: double_div_def)
qed





subsection \<open>The percentage of a holding\<close>

lemma portfolioPercentOf_value:
  "portfolioPercentOf totalUsd holdings h = Inr p \<Longrightarrow> p = percentValue totalUsd holdings h"
  by (cases "usdValue h")
     (auto simp: portfolioPercentOf_def percentValue_def double_div_def double_mul_def bindE_def
           dest: to_double_Inr split: if_splits sum.splits)

lemma portfolioPercentOf_equal_weight:
  assumes "holdings \<noteq> []" and "usdValue h = None \<or> usdValue h = Some 0 \<or> totalUsd \<le> 0"
  shows "portfolioPercentOf totalUsd holdings h = Inr (round_double (100 / real (length holdings)))"
  using assms by (cases "usdValue h") (auto simp: portfolioPercentOf_def equal_weight_Inr)

lemma portfolioPercentOf_priced:
  assumes "usdValue h = Some u" and "u \<noteq> 0" and "0 < totalUsd"
    and "round_double (u / totalUsd) = q" and "\<bar>q\<bar> < 2 ^ 1024"
    and "round_double (q * 100) = p" and "\<bar>p\<bar> < 2 ^ 1024"
  shows "portfolioPercentOf totalUsd holdings h = Inr p"
  using assms by (simp add: portfolioPercentOf_def double_div_def double_mul_def to_double_def bindE_def)













subsection \<open>The report and its fields\<close>

lemma holdingRisk_value:
  "holdingRisk holdings dm vm totalUsd h = Inr t \<Longrightarrow>
   t = scoreTokenRisk h (percentValue totalUsd holdings h)
         (get_or_null dm (TokenHolding.contractAddress h))
         (get_or_false vm (TokenHolding.contractAddress h))"
  by (auto simp: holdingRisk_def bindE_def split: sum.splits dest: portfolioPercentOf_value)

lemma mapE_value:
  "mapE f xs = Inr ys \<Longrightarrow> (\<And>x y. x \<in> set xs \<Longrightarrow> f x = Inr y \<Longrightarrow> y = g x) \<Longrightarrow> ys = map g xs"
proof (induction xs arbitrary: ys)
  case Nil
  then show ?case by simp
next
  case (Cons a xs)
  from Cons.prems(1) obtain y ys' where y: "f a = Inr y" and ys': "mapE f xs = Inr ys'"
    and e: "ys = y # ys'"
    by (auto simp: bindE_def split: sum.splits)
  have "y = g a" using Cons.prems(2) y by simp
  moreover have "ys' = map g xs" using Cons.IH [OF ys'] Cons.prems(2) by simp
  ultimately show ?case using e by simp
qed

lemma mapE_holdingRisk:
  "mapE (holdingRisk holdings dm vm totalUsd) holdings = Inr scored \<Longrightarrow>
   scored = perTokenResults holdings dm vm totalUsd"
  unfolding perTokenResults_def by (erule mapE_value) (rule holdingRisk_value)

lemma first_elem_filter:
  "length xs > 0 \<Longrightarrow> first_elem xs = Inr (hd xs)"
  by (cases xs) (auto simp: first_elem_def)

lemma recommendationItems_Inr:
  "recommendationItems ts overall = Inr (recommendationList ts overall)"
  by (simp add: recommendationItems_def recommendationList_def Let_def bindE_def first_elem_filter)

lemma buildRecommendations_Inr:
  "buildRecommendations ts overall = Inr (map renderRecommendation (recommendationList ts overall))"
  by (simp add: buildRecommendations_def recommendationItems_Inr bindE_def)

lemma buildRiskReport_fields:
  assumes "buildRiskReport now w c cn holdings dm vm totalUsd = Inr r"
  shows "tokenRisks r = Array_sort byRiskDesc (perTokenResults holdings dm vm totalUsd)"
    and "overallScoreOf (tokenRisks r) = Inr (overallRiskScore r)"
    and "riskLevel r = riskLevelOf (overallRiskScore r)"
    and "RiskReport.flags r = portfolioFlagsOf (tokenRisks r)"
    and "recommendations r = map renderRecommendation (recommendationList (tokenRisks r) (overallRiskScore r))"
    and "totalTokensFound r = length holdings"
    and "summary r = buildSummary w (levelName (riskLevel r)) (overallRiskScore r) (tokenRisks r)"
    and "mapE (holdingRisk holdings dm vm totalUsd) holdings
           = Inr (perTokenResults holdings dm vm totalUsd)"
proof -
  obtain scored where m: "mapE (holdingRisk holdings dm vm totalUsd) holdings = Inr scored"
    using assms by (cases "mapE (holdingRisk holdings dm vm totalUsd) holdings")
      (simp_all add: buildRiskReport_def bindE_def)
  have sc: "scored = perTokenResults holdings dm vm totalUsd" using m by (rule mapE_holdingRisk)
  obtain s where s: "overallScoreOf (Array_sort byRiskDesc (perTokenResults holdings dm vm totalUsd)) = Inr s"
    using overallScoreOf_total by blast
  have r: "r = \<lparr> walletAddress = w, analyzedAt = now, chainId = c, chainName = cn,
        totalTokensFound = length holdings, estimatedPortfolioUsd = totalUsd,
        overallRiskScore = s, riskLevel = riskLevelOf s,
        tokenRisks = Array_sort byRiskDesc (perTokenResults holdings dm vm totalUsd),
        RiskReport.flags = portfolioFlagsOf (Array_sort byRiskDesc (perTokenResults holdings dm vm totalUsd)),
        summary = buildSummary w (levelName (riskLevelOf s)) s (Array_sort byRiskDesc (perTokenResults holdings dm vm totalUsd)),
        recommendations = map renderRecommendation
          (recommendationList (Array_sort byRiskDesc (perTokenResults holdings dm vm totalUsd)) s) \<rparr>"
    using assms m
    by (simp add: buildRiskReport_def sc bindE_def Let_def s buildRecommendations_Inr)
  show "tokenRisks r = Array_sort byRiskDesc (perTokenResults holdings dm vm totalUsd)" by (simp add: r)
  show "overallScoreOf (tokenRisks r) = Inr (overallRiskScore r)" by (simp add: r s)
  show "riskLevel r = riskLevelOf (overallRiskScore r)" by (simp add: r)
  show "RiskReport.flags r = portfolioFlagsOf (tokenRisks r)" by (simp add: r)
  show "recommendations r = map renderRecommendation (recommendationList (tokenRisks r) (overallRiskScore r))" by (simp add: r)
  show "totalTokensFound r = length holdings" by (simp add: r)
  show "summary r = buildSummary w (levelName (riskLevel r)) (overallRiskScore r) (tokenRisks r)" by (simp add: r)
  show "mapE (holdingRisk holdings dm vm totalUsd) holdings
          = Inr (perTokenResults holdings dm vm totalUsd)" using m sc by simp
qed

text \<open>
  The loop of step 4 leaves non-negative USD values, all doubles, and returns their sum
  added up in doubles, when the holdings come without USD values, as the Etherscan
  collector builds them, and no balance is negative.
\<close>

lemma estimateUsd_running:
  assumes "estimateUsd parseFloat dm holdings acc = Inr (priced, total')"
    and "\<forall>h\<in>set holdings. usdValue h = None"
    and "\<forall>s x. parseFloat s = Inr x \<longrightarrow> 0 \<le> x"
    and "0 \<le> acc" and "round_double acc = acc"
  shows "(\<forall>h\<in>set priced. 0 \<le> usdOf h \<and> round_double (usdOf h) = usdOf h)
       \<and> total' = foldl (\<lambda>s h. round_double (s + usdOf h)) acc priced"
  using assms
proof (induction holdings arbitrary: acc priced total')
  case Nil
  then show ?case by simp
next
  case (Cons a holdings)
  have none: "\<forall>h\<in>set holdings. usdValue h = None" using Cons.prems(2) by simp
  have skip: ?case
    if r: "estimateUsd parseFloat dm holdings acc = Inr (rest, total')" and p: "priced = a # rest"
    for rest
  proof -
    have "usdOf a = 0" using Cons.prems(2) by (simp add: usdOf_def)
    then show ?thesis
      using Cons.IH [OF r none Cons.prems(3,4,5)] p Cons.prems(5) by (simp add: round_double_0)
  qed
  show ?case
  proof (cases "get_or_null dm (TokenHolding.contractAddress a)")
    case None
    then obtain rest where "estimateUsd parseFloat dm holdings acc = Inr (rest, total')"
      and "priced = a # rest"
      using Cons.prems(1) by (auto simp: bindE_def split: sum.splits)
    then show ?thesis by (rule skip)
  next
    case (Some dex)
    show ?thesis
    proof (cases "DexTokenData.priceUsd dex > 0")
      case False
      then obtain rest where "estimateUsd parseFloat dm holdings acc = Inr (rest, total')"
        and "priced = a # rest"
        using Cons.prems(1) Some by (auto simp: bindE_def split: sum.splits)
      then show ?thesis by (rule skip)
    next
      case True
      from Cons.prems(1) Some True
      obtain parsed scale rawBalance val acc' rest
        where pf: "parseFloat (balance a) = Inr parsed"
          and sc: "Math_pow 10 (decimals a) = Inr scale"
          and rb: "double_div parsed scale = Inr rawBalance"
          and vl: "double_mul rawBalance (DexTokenData.priceUsd dex) = Inr val"
          and ac: "double_add acc val = Inr acc'"
          and r: "estimateUsd parseFloat dm holdings acc' = Inr (rest, total')"
          and p: "priced = a\<lparr>usdValue := Some val\<rparr> # rest"
        by (auto simp: bindE_def split: sum.splits)
      have "0 \<le> parsed" using Cons.prems(3) pf by blast
      moreover have "scale = round_double (10 powi decimals a)"
        using sc by (auto simp: Math_pow_def dest: to_double_Inr split: if_splits)
      then have "0 \<le> scale" by (simp add: round_double_nonneg)
      ultimately have q: "0 \<le> parsed / scale" by simp
      have "rawBalance = round_double (parsed / scale)"
        using rb by (auto simp: double_div_def dest: to_double_Inr split: if_splits)
      then have "0 \<le> rawBalance" using q by (simp add: round_double_nonneg)
      then have m: "0 \<le> rawBalance * DexTokenData.priceUsd dex" using True by simp
      have v: "val = round_double (rawBalance * DexTokenData.priceUsd dex)"
        using vl by (auto simp: double_mul_def dest: to_double_Inr)
      have v0: "0 \<le> val" and vd: "round_double val = val"
        using m by (simp_all add: v round_double_nonneg round_double_idem)
      have a': "acc' = round_double (acc + val)"
        using ac by (auto simp: double_add_def dest: to_double_Inr)
      have s: "0 \<le> acc + val" using Cons.prems(4) v0 by simp
      have a0: "0 \<le> acc'" and ad: "round_double acc' = acc'"
        using s by (simp_all add: a' round_double_nonneg round_double_idem)
      show ?thesis
        using Cons.IH [OF r none Cons.prems(3) a0 ad] p v0 vd a' by (simp add: usdOf_def)
    qed
  qed
qed

lemma estimateUsd_values:
  assumes "estimateUsd parseFloat dm holdings 0 = Inr (priced, total')"
    and "\<forall>h\<in>set holdings. usdValue h = None"
    and "\<forall>s x. parseFloat s = Inr x \<longrightarrow> 0 \<le> x"
  shows "(\<forall>h\<in>set priced. 0 \<le> usdOf h) \<and> (\<forall>h\<in>set priced. round_double (usdOf h) = usdOf h)
       \<and> runningTotal priced = total'"
  using estimateUsd_running [OF assms, of ] by (simp add: runningTotal_def round_double_0)

lemma perTokenResults_order:
  "map TokenRisk.contractAddress (perTokenResults holdings dm vm totalUsd)
     = map TokenHolding.contractAddress holdings"
  by (simp add: perTokenResults_def scoreTokenRisk_def Let_def)

lemma perTokenResults_nonempty: "holdings \<noteq> [] \<Longrightarrow> perTokenResults holdings dm vm totalUsd \<noteq> []"
  by (simp add: perTokenResults_def)

lemma perTokenResults_range:
  "t \<in> set (perTokenResults holdings dm vm totalUsd) \<Longrightarrow> 0 \<le> riskScore t \<and> riskScore t \<le> 100"
  using riskScore_range by (auto simp: perTokenResults_def)

lemma report_overall:
  assumes "buildRiskReport now w c cn holdings dm vm totalUsd = Inr r" and "holdings \<noteq> []"
  shows "overallRiskScore r =
           Math_round (meanScore (tokenRisks r) * 0.6
                       + real_of_int (Max (riskScore ` set (tokenRisks r))) * 0.4)"
proof -
  let ?ts = "perTokenResults holdings dm vm totalUsd"
  have ne: "?ts \<noteq> []" using assms(2) by (rule perTokenResults_nonempty)
  have t: "tokenRisks r = Array_sort byRiskDesc ?ts" using buildRiskReport_fields(1) [OF assms(1)] .
  have "overallScoreOf (Array_sort byRiskDesc ?ts) = Inr (overallRiskScore r)"
    using buildRiskReport_fields(2) [OF assms(1)] t by simp
  then show ?thesis
    using overallScoreOf_sorted [OF ne] by (simp add: t meanScore_Array_sort set_Array_sort)
qed

lemma buildRiskReport_empty:
  "buildRiskReport now w c cn [] dm vm totalUsd =
     Inr \<lparr> walletAddress = w, analyzedAt = now, chainId = c, chainName = cn,
           totalTokensFound = 0, estimatedPortfolioUsd = totalUsd,
           overallRiskScore = 0, riskLevel = LOW, tokenRisks = [],
           RiskReport.flags = \<lparr> concentrationRisk = False, rugPullRisk = False,
                                lowLiquidityRisk = False, highVolatilityRisk = False \<rparr>,
           summary = buildSummary w ''LOW'' 0 [],
           recommendations = [renderRecommendation LooksSafe] \<rparr>"
  by (simp add: buildRiskReport_def bindE_def Array_sort_def overallScoreOf_def avgScoreOf_def
      maxScoreOf_def Math_round_def riskLevelOf_def portfolioFlagsOf_def buildRecommendations_def
      recommendationItems_def Let_def)

lemma analyzeWallet_empty:
  assumes "getTokenHoldings env (AnalyzeRequest.walletAddress req) (requestChain req) = []"
  shows "analyzeWallet now pf env req =
           Inr (emptyWalletReport now (AnalyzeRequest.walletAddress req) (requestChain req)
                  (chainNameOf (requestChain req)),
                [CallGetTokenHoldings (AnalyzeRequest.walletAddress req) (requestChain req)])"
  using assms by (simp add: analyzeWallet_def Let_def)

subsection \<open>Recommendations and printing\<close>

lemma show_nat_digit: "n < 10 \<Longrightarrow> show_nat n = [digit_char n]"
  by (simp add: show_nat.simps)

lemma show_nat_ge10: "10 \<le> n \<Longrightarrow> show_nat n = show_nat (n div 10) @ [digit_char (n mod 10)]"
  by (subst show_nat.simps) simp








subsection \<open>The collector\<close>

lemma getTokenDexData_Some:
  assumes "getTokenDexData pf resp cid = Inr (Some d)"
  shows "\<exists>pairs chain best others.
           resp = Response (Some pairs)
         \<and> Array_sort byLiquidityDesc (filter (\<lambda>p. DexPair.chainId p = chain) pairs) = best # others
         \<and> DexTokenData.liquidityUsd d = opt_num_or (opt_field (liquidity best)) 0
         \<and> DexTokenData.hasLiquidityLock d = (opt_num_or (opt_field (liquidity best)) 0 > 100000)"
proof (cases resp)
  case RequestFailed
  then show ?thesis using assms by (simp add: getTokenDexData_def)
next
  case (Response po)
  show ?thesis
  proof (cases po)
    case None
    then show ?thesis using assms Response by (simp add: getTokenDexData_def)
  next
    case (Some pairs)
    let ?chain = "case CHAIN_MAP (case cid of None \<Rightarrow> 1 | Some c \<Rightarrow> c) of
                     None \<Rightarrow> ''ethereum''
                   | Some n \<Rightarrow> if n = [] then ''ethereum'' else n"
    let ?rel = "Array_sort byLiquidityDesc (filter (\<lambda>p. DexPair.chainId p = ?chain) pairs)"
    show ?thesis
    proof (cases ?rel)
      case Nil
      then show ?thesis using assms Response Some
        by (simp add: getTokenDexData_def Let_def split: if_splits)
    next
      case (Cons best others)
      have "DexTokenData.liquidityUsd d = opt_num_or (opt_field (liquidity best)) 0
         \<and> DexTokenData.hasLiquidityLock d = (opt_num_or (opt_field (liquidity best)) 0 > 100000)"
        using assms Response Some Cons
        by (auto simp: getTokenDexData_def Let_def bindE_def split: if_splits sum.splits)
      then show ?thesis using Response Some Cons by blast
    qed
  qed
qed

subsection \<open>The examples, evaluated\<close>

lemmas score_defs = scoreTokenRisk_def Let_def verification_check_def
      liquidity_checks_def concentration_check_def add_risk_def Math_abs_def Math_min_def num_or_def
      get_or_null_def get_or_false_def

lemmas show_defs = show_nat_ge10 show_nat_digit digit_char_def show_int_def toFixed0_def

text \<open>
  The quotients by 100 that the examples need, and their products with 100, in doubles:
  for instance \<open>80 / 100\<close> is rounded to \<open>3602879701896397 / 2^52\<close>, and 100 times that
  number is rounded to 80.
\<close>

lemma percent_X: "portfolioPercentOf 100 holdings holdingX = Inr 80"
proof -
  have q: "round_double (80 / 100) = 3602879701896397 / 4503599627370496"
    by (subst round_double_eval [where e = "- 1"]) (simp_all add: round_even_def Let_def)
  have p: "round_double (3602879701896397 / 4503599627370496 * 100) = 80"
    by (subst round_double_eval [where e = 6]) (simp_all add: round_even_def Let_def)
  show ?thesis
    by (rule portfolioPercentOf_priced [OF _ _ _ q _ p]) (simp_all add: holdingX_def)
qed

lemma percent_Y: "portfolioPercentOf 100 holdings holdingY = Inr 15"
proof -
  have q: "round_double (15 / 100) = 5404319552844595 / 36028797018963968"
    by (subst round_double_eval [where e = "- 3"]) (simp_all add: round_even_def Let_def)
  have p: "round_double (5404319552844595 / 36028797018963968 * 100) = 15"
    by (subst round_double_eval [where e = 3]) (simp_all add: round_even_def Let_def)
  show ?thesis
    by (rule portfolioPercentOf_priced [OF _ _ _ q _ p]) (simp_all add: holdingY_def)
qed

lemma percent_Z: "portfolioPercentOf 100 holdings holdingZ = Inr 5"
proof -
  have q: "round_double (5 / 100) = 3602879701896397 / 72057594037927936"
    by (subst round_double_eval [where e = "- 5"]) (simp_all add: round_even_def Let_def)
  have p: "round_double (3602879701896397 / 72057594037927936 * 100) = 5"
    by (subst round_double_eval [where e = 2]) (simp_all add: round_even_def Let_def)
  show ?thesis
    by (rule portfolioPercentOf_priced [OF _ _ _ q _ p]) (simp_all add: holdingZ_def)
qed



lemma percent_Priced: "portfolioPercentOf 100 holdings holdingPriced = Inr 100"
proof -
  have q: "round_double (100 / 100) = 1" by (simp add: round_double_1)
  have p: "round_double (1 * 100) = 100" by (simp add: round_double_100)
  show ?thesis
    by (rule portfolioPercentOf_priced [OF _ _ _ q _ p]) (simp_all add: holdingPriced_def)
qed

text \<open>
  23 USD of 40 USD: the percentage is the double below 57.5 and is printed as 57.
\<close>

lemma percent_Q:
  "portfolioPercentOf 40 holdings holdingQ = Inr (8092405580431359 / 140737488355328)"
proof -
  have q: "round_double (23 / 40) = 2589569785738035 / 4503599627370496"
    by (subst round_double_eval [where e = "- 1"]) (simp_all add: round_even_def Let_def)
  have p: "round_double (2589569785738035 / 4503599627370496 * 100)
             = 8092405580431359 / 140737488355328"
    by (subst round_double_eval [where e = 5]) (simp_all add: round_even_def Let_def)
  show ?thesis
    by (rule portfolioPercentOf_priced [OF _ _ _ q _ p]) (simp_all add: holdingQ_def)
qed

lemma percent_Q_printed:
  "(8092405580431359 / 140737488355328 :: real) < 23 / 40 * 100
   \<and> toFixed0 (8092405580431359 / 140737488355328) = ''57''
   \<and> toFixed0 (23 / 40 * 100) = ''58''"
  by (simp add: show_defs)

text \<open>From \<open>10^21\<close> on \<open>toFixed(0)\<close> prints the exponent notation.\<close>

lemma toFixed0_1e21: "toFixed0 (10 ^ 21) = ''1e+21''"
proof -
  have a: "round_double 1000000000000000000000 = 1000000000000000000000"
    using round_double_exact [of 1000000000000000000000 "5 ^ 21" 21] by simp
  have b: "round_double 2000000000000000000000 = 2000000000000000000000"
    using round_double_exact [of 2000000000000000000000 "5 ^ 21" 22] by simp
  have c: "round_double 10000000000000000000000 = 10000000000000000000000"
    using round_double_exact [of 10000000000000000000000 "5 ^ 22" 22] by simp
  have n: "length (show_nat 1000000000000000000000) = 22"
    by (simp add: show_defs)
  have k: "exponent_candidates 1000000000000000000000 22 (Suc 0) = [(Suc 0, 22)]"
    by (simp add: exponent_candidates_def a b c)
  have s: "shortest_digits 1000000000000000000000 22 1 17 = Some (1, 1, 22)"
    using shortest_digits.simps(2) [of 1000000000000000000000 22 1 16] by (simp add: k Let_def)
  have f: "nat \<lfloor>1000000000000000000000 :: real\<rfloor> = 1000000000000000000000" by simp
  have e: "exponent_notation 1000000000000000000000 = ''1e+21''"
    unfolding exponent_notation_def f n s by (simp add: show_defs)
  show ?thesis
    by (simp add: toFixed0_def a e)
qed

text \<open>The loop of step 4 on one holding: 1.5 tokens at 1.5 USD are 2.25 USD.\<close>

lemma estimate_F:
  "estimateUsd parseFloatEx [''0xf1'' \<mapsto> Some dexBest] [holdingF] 0
     = Inr ([holdingF\<lparr>usdValue := Some (9 / 4)\<rparr>], 9 / 4)"
proof -
  have d: "round_double 1 = 1" "round_double (3 / 2) = 3 / 2" "round_double (9 / 4) = 9 / 4"
    using round_double_exact [of 1 1 0] round_double_exact [of "3 / 2" 3 "- 1"]
      round_double_exact [of "9 / 4" 9 "- 2"] by simp_all
  have p: "Math_pow 10 0 = Inr 1" by (simp add: Math_pow_def to_double_def d)
  have q: "double_div (3 / 2) 1 = Inr (3 / 2)" by (simp add: double_div_def to_double_def d)
  have m: "double_mul (3 / 2) (3 / 2) = Inr (9 / 4)" by (simp add: double_mul_def to_double_def d)
  have a: "double_add 0 (9 / 4) = Inr (9 / 4)" by (simp add: double_add_def to_double_def d)
  have f: "balance holdingF = ''1.5''" "decimals holdingF = 0"
    "TokenHolding.contractAddress holdingF = ''0xf1''"
    by (simp_all add: holdingF_def)
  have x: "DexTokenData.priceUsd dexBest = 3 / 2" by (simp add: dexBest_def)
  show ?thesis
    by (simp add: f x p q m a get_or_null_def parseFloatEx_def bindE_def)
qed

lemma percent_Zero: "portfolioPercentOf 100 [holdingPriced, holdingZero] holdingZero = Inr 50"
  using portfolioPercentOf_equal_weight [of "[holdingPriced, holdingZero]" holdingZero 100]
  by (simp add: holdingZero_def round_double_50)

lemma percent_S: "portfolioPercentOf 0 [holdingS] holdingS = Inr 100"
  using portfolioPercentOf_equal_weight [of "[holdingS]" holdingS 0]
  by (simp add: holdingS_def round_double_100)

lemma scored_XYZ:
  "mapE (holdingRisk [holdingY, holdingX, holdingZ] dexMapXYZ verifiedXYZ 100)
     [holdingY, holdingX, holdingZ] = Inr [riskY, riskX, riskZ]"
proof -
  have x: "holdingRisk holdings dexMapXYZ verifiedXYZ 100 holdingX = Inr riskX" for holdings
    unfolding holdingRisk_def percent_X
    by (simp add: bindE_def holdingX_def dexMapXYZ_def verifiedXYZ_def score_defs dexX_def riskX_def)
  have y: "holdingRisk holdings dexMapXYZ verifiedXYZ 100 holdingY = Inr riskY" for holdings
    unfolding holdingRisk_def percent_Y
    by (simp add: bindE_def holdingY_def dexMapXYZ_def verifiedXYZ_def score_defs dexY_def riskY_def)
  have z: "holdingRisk holdings dexMapXYZ verifiedXYZ 100 holdingZ = Inr riskZ" for holdings
    unfolding holdingRisk_def percent_Z
    by (simp add: bindE_def holdingZ_def dexMapXYZ_def verifiedXYZ_def score_defs dexZ_def riskZ_def)
  show ?thesis by (simp add: x y z bindE_def)
qed

lemma perToken_XYZ:
  "perTokenResults [holdingY, holdingX, holdingZ] dexMapXYZ verifiedXYZ 100 = [riskY, riskX, riskZ]"
  using mapE_holdingRisk [OF scored_XYZ] by simp

lemma sort_XYZ: "Array_sort byRiskDesc [riskY, riskX, riskZ] = [riskX, riskY, riskZ]"
  by (simp add: Array_sort_def byRiskDesc_def riskX_def riskY_def riskZ_def)

lemma overall_XYZ: "overallScoreOf [riskX, riskY, riskZ] = Inr 42"
  by (simp add: overallScoreOf_def avgScoreOf_def js_div_def maxScoreOf_def int_or_def bindE_def
      Math_round_def riskX_def riskY_def riskZ_def)

lemma recs_XYZ:
  "buildRecommendations [riskX, riskY, riskZ] 42 =
     Inr [''Consider reducing or exiting high-risk positions: XTK'',
          ''Low liquidity tokens may be hard to exit quickly: XTK'',
          ''Portfolio is highly concentrated in XTK (80%) '' @ em_dash @ '' consider diversifying'']"
  by (simp add: buildRecommendations_Inr recommendationList_def Let_def riskX_def riskY_def riskZ_def
      show_defs)

lemma summary_XYZ:
  "buildSummary walletEx ''MEDIUM'' 42 [riskX, riskY, riskZ] =
     ''Wallet 0xd8dA...6045 has a MEDIUM risk profile (score: 42/100) across 3 token(s). ''
     @ ''Highest risk token: XTK (70/100). ''
     @ ''Analysis powered by Crypto Risk Analyzer Agent on Virtuals ACP.''"
proof -
  have s: "Array_sort byRiskDesc [riskX, riskY, riskZ] = [riskX, riskY, riskZ]"
    by (simp add: Array_sort_def byRiskDesc_def riskX_def riskY_def riskZ_def)
  have t: "TokenRisk.symbol riskX = ''XTK''" "riskScore riskX = 70" by (simp_all add: riskX_def)
  show ?thesis
    unfolding buildSummary_def s
    by (simp add: t walletEx_def slice_first6_def slice_last4_def show_defs)
qed

lemma flags_XYZ:
  "portfolioFlagsOf [riskX, riskY, riskZ] =
     \<lparr> concentrationRisk = True, rugPullRisk = False,
       lowLiquidityRisk = True, highVolatilityRisk = True \<rparr>"
  by (simp add: portfolioFlagsOf_def riskX_def riskY_def riskZ_def)

lemma report_XYZ:
  "buildRiskReport nowEx walletEx 1 ''Ethereum Mainnet'' [holdingY, holdingX, holdingZ]
     dexMapXYZ verifiedXYZ 100 = Inr reportXYZ"
  unfolding buildRiskReport_def scored_XYZ
  by (simp add: bindE_def sort_XYZ overall_XYZ riskLevelOf_def recs_XYZ summary_XYZ flags_XYZ
      reportXYZ_def)

lemma scored_S: "mapE (holdingRisk [holdingS] Map.empty Map.empty 0) [holdingS] = Inr [riskS]"
proof -
  have "holdingRisk [holdingS] Map.empty Map.empty 0 holdingS = Inr riskS"
    unfolding holdingRisk_def percent_S
    by (simp add: bindE_def holdingS_def score_defs riskS_def)
  then show ?thesis by (simp add: bindE_def)
qed

lemma report_S:
  "buildRiskReport nowEx walletEx 1 ''Ethereum Mainnet'' [holdingS] Map.empty Map.empty 0 = Inr reportS"
proof -
  have s: "Array_sort byRiskDesc [riskS] = [riskS]" by (simp add: Array_sort_def)
  have t: "TokenRisk.symbol riskS = ''SCAM''" "riskScore riskS = 75" by (simp_all add: riskS_def)
  have o: "overallScoreOf [riskS] = Inr 75"
    by (simp add: overallScoreOf_def avgScoreOf_def js_div_def maxScoreOf_def int_or_def bindE_def
        Math_round_def t)
  have r: "buildRecommendations [riskS] 75 = Inr (recommendations reportS)"
    by (simp add: buildRecommendations_Inr recommendationList_def Let_def riskS_def show_defs reportS_def)
  have u: "buildSummary walletEx ''CRITICAL'' 75 [riskS] = summary reportS"
    unfolding buildSummary_def s
    by (simp add: t walletEx_def slice_first6_def slice_last4_def show_defs reportS_def)
  have f: "portfolioFlagsOf [riskS] = RiskReport.flags reportS"
    by (simp add: portfolioFlagsOf_def riskS_def reportS_def)
  show ?thesis
    unfolding buildRiskReport_def scored_S
    by (simp add: bindE_def s o riskLevelOf_def r u f reportS_def)
qed




lemma risk_Zero:
  "holdingRisk [holdingPriced, holdingZero] Map.empty Map.empty 100 holdingZero = Inr riskZero"
  unfolding holdingRisk_def percent_Zero
  by (simp add: bindE_def holdingZero_def score_defs riskZero_def)

lemma holdings_XYZ_ne: "[holdingY, holdingX, holdingZ] \<noteq> []"
  by simp

lemma holdings_S_ne: "[holdingS] \<noteq> []"
  by simp

lemmas dex_defs = getTokenDexData_def CHAIN_MAP_def Array_sort_def byLiquidityDesc_def opt_num_or_def
  opt_field_def opt_str_or_def num_or_def parseFloatEx_def bindE_def Let_def

lemma dex_best:
  "getTokenDexData parseFloatEx (Response (Some [pairSmall, pairBest, pairOtherChain])) (Some 1)
     = Inr (Some dexBest)"
  by (simp add: dex_defs pairSmall_def pairBest_def pairOtherChain_def dexBest_def)

lemma dex_thin:
  "getTokenDexData parseFloatEx (Response (Some [pairThin, pairOtherChain])) None = Inr (Some dexThin)"
  by (simp add: dex_defs pairThin_def pairOtherChain_def dexThin_def)

section \<open>The per-token score\<close>

text \<open>
  C1. For every holding, portfolio percentage \<open>p\<close>, market data or absence \<open>m\<close> and
  verification boolean \<open>v\<close>, \<open>scoreTokenRisk\<close> returns one TokenRisk whose score is the
  minimum of 100 and the sum of: 30 if \<open>v\<close> is false; 25 and nothing else from the market
  data if \<open>m\<close> is absent, otherwise exactly one liquidity tier (35 below 10000, else 20
  below 50000, else 5 below 500000, else 0) plus 15 without the liquidity lock plus 10 if
  the absolute 24h price change exceeds 30; and one concentration tier (20 above 70, else
  10 above 50, else 0). The function has no error branch, and the score is always between
  0 and 100.
\<close>

theorem C1_scoreTokenRisk_score:
  "riskScore (scoreTokenRisk h p m v) =
     min 100
       ((if v then 0 else 30)
        + (case m of
             None \<Rightarrow> 25
           | Some d \<Rightarrow>
               (if DexTokenData.liquidityUsd d < 10000 then 35
                else if DexTokenData.liquidityUsd d < 50000 then 20
                else if DexTokenData.liquidityUsd d < 500000 then 5 else 0)
               + (if DexTokenData.hasLiquidityLock d then 0 else 15)
               + (if \<bar>priceChange24h d\<bar> > 30 then 10 else 0))
        + (if p > 70 then 20 else if 50 < p \<and> p \<le> 70 then 10 else 0))
   \<and> 0 \<le> riskScore (scoreTokenRisk h p m v)
   \<and> riskScore (scoreTokenRisk h p m v) \<le> 100"
  using riskScore_range [of h p m v]
  by (simp add: riskScore_scoreTokenRisk penalty_sum_def)

text \<open>
  An unverified token without market data that is the whole portfolio scores
  30 + 25 + 20 = 75; a token with all three market penalties and both others reaches the
  cap.
\<close>

theorem C1_scoreTokenRisk_score_witness:
  "riskScore (scoreTokenRisk holdingS 100 None False) = 75
   \<and> riskScore (scoreTokenRisk holdingX 80 (Some dexX) True) = 70
   \<and> riskScore (scoreTokenRisk holdingX 80 (Some (dexX\<lparr>priceChange24h := - 40\<rparr>)) False) = 100"
  using C1_scoreTokenRisk_score [of holdingS 100 None False]
        C1_scoreTokenRisk_score [of holdingX 80 "Some dexX" True]
        C1_scoreTokenRisk_score [of holdingX 80 "Some (dexX\<lparr>priceChange24h := - 40\<rparr>)" False]
  by (simp add: dexX_def)

section \<open>The overall score\<close>

text \<open>
  C2. For every non-empty list of TokenRisk entries, the overall score that
  \<open>buildRiskReport\<close> computes (it sorts the entries, then aggregates) is \<open>Math.round\<close> of
  the arithmetic mean of all scores times 0.6 plus the maximum score times 0.4; no integer
  is closer to that value; and for a single entry it is that entry's score. The same holds
  of the \<open>overallRiskScore\<close> of every report built from a non-empty list of holdings.
\<close>

theorem C2_overall_score:
  "(ts \<noteq> [] \<longrightarrow>
      overallScoreOf (Array_sort byRiskDesc ts) = Inr (Math_round (weightedScore ts))
      \<and> (\<forall>k. \<bar>real_of_int (Math_round (weightedScore ts)) - weightedScore ts\<bar>
                \<le> \<bar>real_of_int k - weightedScore ts\<bar>))
   \<and> overallScoreOf (Array_sort byRiskDesc [t]) = Inr (riskScore t)
   \<and> (buildRiskReport now w c cn holdings dm vm totalUsd = Inr r \<and> holdings \<noteq> [] \<longrightarrow>
        overallRiskScore r = Math_round (weightedScore (tokenRisks r))
        \<and> (\<forall>t'. tokenRisks r = [t'] \<longrightarrow> overallRiskScore r = riskScore t'))"
proof (intro conjI impI allI)
  assume "ts \<noteq> []"
  then show "overallScoreOf (Array_sort byRiskDesc ts) = Inr (Math_round (weightedScore ts))"
    by (simp add: overallScoreOf_sorted weightedScore_def)
next
  fix k
  show "\<bar>real_of_int (Math_round (weightedScore ts)) - weightedScore ts\<bar>
          \<le> \<bar>real_of_int k - weightedScore ts\<bar>"
    by (rule Math_round_closest)
next
  have "overallScoreOf (Array_sort byRiskDesc [t]) = Inr (Math_round (weightedScore [t]))"
    by (simp add: overallScoreOf_sorted weightedScore_def)
  then show "overallScoreOf (Array_sort byRiskDesc [t]) = Inr (riskScore t)"
    using overall_single [of t] by (simp add: weightedScore_def)
next
  assume a: "buildRiskReport now w c cn holdings dm vm totalUsd = Inr r \<and> holdings \<noteq> []"
  then show o: "overallRiskScore r = Math_round (weightedScore (tokenRisks r))"
    using report_overall [of now w c cn holdings dm vm totalUsd r] by (simp add: weightedScore_def)
  fix t'
  assume "tokenRisks r = [t']"
  then show "overallRiskScore r = riskScore t'"
    using o overall_single [of t'] by (simp add: weightedScore_def)
qed

text \<open>
  Three holdings with scores 0, 70 and 0: the mean is 70/3, the maximum 70 and the overall
  score 14 + 28 = 42. One holding with score 75: the overall score is 75.
\<close>

theorem C2_overall_score_witness:
  "[riskY, riskX, riskZ] \<noteq> []
   \<and> overallScoreOf (Array_sort byRiskDesc [riskY, riskX, riskZ]) = Inr 42
   \<and> weightedScore [riskY, riskX, riskZ] = 42
   \<and> buildRiskReport nowEx walletEx 1 ''Ethereum Mainnet'' [holdingY, holdingX, holdingZ]
        dexMapXYZ verifiedXYZ 100 = Inr reportXYZ
   \<and> [holdingY, holdingX, holdingZ] \<noteq> []
   \<and> Math_round (weightedScore (tokenRisks reportXYZ)) = 42
   \<and> buildRiskReport nowEx walletEx 1 ''Ethereum Mainnet'' [holdingS] Map.empty Map.empty 0 = Inr reportS
   \<and> [holdingS] \<noteq> []
   \<and> tokenRisks reportS = [riskS]
   \<and> overallRiskScore reportS = riskScore riskS"
proof -
  have a: "overallRiskScore reportXYZ = 42" by (simp add: reportXYZ_def)
  have b: "tokenRisks reportS = [riskS]" by (simp add: reportS_def)
  have v: "weightedScore [riskY, riskX, riskZ] = 42"
    by (simp add: weightedScore_def meanScore_def riskX_def riskY_def riskZ_def)
  have m: "Math_round 42 = 42" by (simp add: Math_round_def)
  show ?thesis
    using C2_overall_score [where ts = "[riskY, riskX, riskZ]" and t = riskX and r = reportXYZ
            and now = nowEx
            and w = walletEx and c = 1 and cn = "''Ethereum Mainnet''"
            and holdings = "[holdingY, holdingX, holdingZ]" and dm = dexMapXYZ and vm = verifiedXYZ
            and totalUsd = 100]
          C2_overall_score [where ts = "[riskS]" and t = riskS and r = reportS and now = nowEx
            and w = walletEx and c = 1 and cn = "''Ethereum Mainnet''"
            and holdings = "[holdingS]" and dm = Map.empty and vm = Map.empty and totalUsd = 0]
          report_XYZ report_S a b
    unfolding v m by simp
qed

text \<open>
  C9. For every non-empty list of TokenRisk entries with scores between 0 and 100, the
  overall score computed from it lies between the minimum and the maximum score, and so
  between 0 and 100. The scores of a report's entries are always in that range, so the
  same holds of the \<open>overallRiskScore\<close> of every report built from a non-empty list of
  holdings.
\<close>

theorem C9_overall_between:
  "(ts \<noteq> [] \<and> (\<forall>t\<in>set ts. 0 \<le> riskScore t \<and> riskScore t \<le> 100) \<longrightarrow>
      (\<exists>s. overallScoreOf (Array_sort byRiskDesc ts) = Inr s
           \<and> Min (riskScore ` set ts) \<le> s \<and> s \<le> Max (riskScore ` set ts)
           \<and> 0 \<le> s \<and> s \<le> 100))
   \<and> (buildRiskReport now w c cn holdings dm vm totalUsd = Inr r \<and> holdings \<noteq> [] \<longrightarrow>
         Min (riskScore ` set (tokenRisks r)) \<le> overallRiskScore r
       \<and> overallRiskScore r \<le> Max (riskScore ` set (tokenRisks r))
       \<and> 0 \<le> overallRiskScore r \<and> overallRiskScore r \<le> 100)"
proof -
  have agg: "ts \<noteq> [] \<and> (\<forall>t\<in>set ts. 0 \<le> riskScore t \<and> riskScore t \<le> 100) \<longrightarrow>
      (\<exists>s. overallScoreOf (Array_sort byRiskDesc ts) = Inr s
           \<and> Min (riskScore ` set ts) \<le> s \<and> s \<le> Max (riskScore ` set ts)
           \<and> 0 \<le> s \<and> s \<le> 100)"
  proof (rule impI)
    assume a: "ts \<noteq> [] \<and> (\<forall>t\<in>set ts. 0 \<le> riskScore t \<and> riskScore t \<le> 100)"
    then have ne: "ts \<noteq> []" and rng: "\<forall>t\<in>set ts. 0 \<le> riskScore t \<and> riskScore t \<le> 100"
      by simp_all
    let ?s = "Math_round (meanScore ts * 0.6 + real_of_int (Max (riskScore ` set ts)) * 0.4)"
    have b: "Min (riskScore ` set ts) \<le> ?s \<and> ?s \<le> Max (riskScore ` set ts)"
      using weighted_bounds [OF ne] by (intro Math_round_between) auto
    have "0 \<le> Min (riskScore ` set ts)" using ne rng by simp
    moreover have "Max (riskScore ` set ts) \<le> 100" using ne rng by simp
    ultimately have "0 \<le> ?s \<and> ?s \<le> 100" using b by linarith
    then show "\<exists>s. overallScoreOf (Array_sort byRiskDesc ts) = Inr s
           \<and> Min (riskScore ` set ts) \<le> s \<and> s \<le> Max (riskScore ` set ts)
           \<and> 0 \<le> s \<and> s \<le> 100"
      using b overallScoreOf_sorted [OF ne] by simp
  qed
  have rep: "buildRiskReport now w c cn holdings dm vm totalUsd = Inr r \<and> holdings \<noteq> [] \<longrightarrow>
         Min (riskScore ` set (tokenRisks r)) \<le> overallRiskScore r
       \<and> overallRiskScore r \<le> Max (riskScore ` set (tokenRisks r))
       \<and> 0 \<le> overallRiskScore r \<and> overallRiskScore r \<le> 100"
  proof (rule impI)
    assume a: "buildRiskReport now w c cn holdings dm vm totalUsd = Inr r \<and> holdings \<noteq> []"
    then have r: "buildRiskReport now w c cn holdings dm vm totalUsd = Inr r" and h: "holdings \<noteq> []"
      by simp_all
    let ?ts = "tokenRisks r"
    have t: "?ts = Array_sort byRiskDesc (perTokenResults holdings dm vm totalUsd)"
      using buildRiskReport_fields(1) [OF r] .
    have ne: "?ts \<noteq> []"
      using perTokenResults_nonempty [OF h]
        length_Array_sort [of byRiskDesc "perTokenResults holdings dm vm totalUsd"] t
      by (metis length_0_conv)
    have rng: "\<forall>t\<in>set ?ts. 0 \<le> riskScore t \<and> riskScore t \<le> 100"
      using perTokenResults_range by (simp add: t set_Array_sort)
    have b: "Min (riskScore ` set ?ts) \<le> overallRiskScore r
           \<and> overallRiskScore r \<le> Max (riskScore ` set ?ts)"
      unfolding report_overall [OF r h]
      using weighted_bounds [OF ne] by (intro Math_round_between) auto
    have "0 \<le> Min (riskScore ` set ?ts)" using ne rng by simp
    moreover have "Max (riskScore ` set ?ts) \<le> 100" using ne rng by simp
    ultimately show "Min (riskScore ` set (tokenRisks r)) \<le> overallRiskScore r
         \<and> overallRiskScore r \<le> Max (riskScore ` set (tokenRisks r))
         \<and> 0 \<le> overallRiskScore r \<and> overallRiskScore r \<le> 100"
      using b by linarith
  qed
  show ?thesis using agg rep by (rule conjI)
qed

theorem C9_overall_between_witness:
  "[riskY, riskX, riskZ] \<noteq> []
   \<and> riskScore riskY = 0 \<and> riskScore riskX = 70 \<and> riskScore riskZ = 0
   \<and> overallScoreOf (Array_sort byRiskDesc [riskY, riskX, riskZ]) = Inr 42
   \<and> Min (riskScore ` set [riskY, riskX, riskZ]) = 0
   \<and> Max (riskScore ` set [riskY, riskX, riskZ]) = 70
   \<and> buildRiskReport nowEx walletEx 1 ''Ethereum Mainnet'' [holdingY, holdingX, holdingZ]
        dexMapXYZ verifiedXYZ 100 = Inr reportXYZ
   \<and> [holdingY, holdingX, holdingZ] \<noteq> []
   \<and> Min (riskScore ` set (tokenRisks reportXYZ)) \<le> 42
   \<and> 42 \<le> Max (riskScore ` set (tokenRisks reportXYZ))
   \<and> overallRiskScore reportXYZ = 42"
proof -
  have a: "overallRiskScore reportXYZ = 42" by (simp add: reportXYZ_def)
  have s: "riskScore riskX = 70" "riskScore riskY = 0" "riskScore riskZ = 0"
    by (simp_all add: riskX_def riskY_def riskZ_def)
  have o: "overallScoreOf (Array_sort byRiskDesc [riskY, riskX, riskZ]) = Inr 42"
    by (simp add: sort_XYZ overall_XYZ)
  show ?thesis
    using C9_overall_between [where ts = "[riskY, riskX, riskZ]" and r = reportXYZ and now = nowEx
            and w = walletEx and c = 1 and cn = "''Ethereum Mainnet''"
            and holdings = "[holdingY, holdingX, holdingZ]" and dm = dexMapXYZ and vm = verifiedXYZ
            and totalUsd = 100]
          report_XYZ
    unfolding a o by (simp add: s)
qed

section \<open>Flags, level and order of a report\<close>

text \<open>
  C3. In every report of \<open>buildRiskReport\<close> each of the four flags is a disjunction over
  the report's TokenRisk entries, which are the per-token results: \<open>concentrationRisk\<close>
  holds iff some entry has a percentage above 50, \<open>rugPullRisk\<close> iff some entry is both
  unverified and without the liquidity lock, \<open>lowLiquidityRisk\<close> iff some entry has a
  liquidity strictly between 0 and 50000, \<open>highVolatilityRisk\<close> iff some entry has a
  percentage above 30 and a score above 50.
\<close>

theorem C3_flags:
  assumes "buildRiskReport now w c cn holdings dm vm totalUsd = Inr r"
  shows "(concentrationRisk (RiskReport.flags r) \<longleftrightarrow>
            (\<exists>t\<in>set (tokenRisks r). portfolioPercentage t > 50))
       \<and> (rugPullRisk (RiskReport.flags r) \<longleftrightarrow>
            (\<exists>t\<in>set (tokenRisks r). \<not> isContractVerified t \<and> \<not> TokenRisk.hasLiquidityLock t))
       \<and> (lowLiquidityRisk (RiskReport.flags r) \<longleftrightarrow>
            (\<exists>t\<in>set (tokenRisks r). 0 < TokenRisk.liquidityUsd t \<and> TokenRisk.liquidityUsd t < 50000))
       \<and> (highVolatilityRisk (RiskReport.flags r) \<longleftrightarrow>
            (\<exists>t\<in>set (tokenRisks r). portfolioPercentage t > 30 \<and> riskScore t > 50))
       \<and> mset (tokenRisks r) = mset (perTokenResults holdings dm vm totalUsd)"
  using buildRiskReport_fields(1,4) [OF assms]
  by (simp add: portfolioFlagsOf_def list_ex_iff mset_Array_sort)

theorem C3_flags_witness:
  "buildRiskReport nowEx walletEx 1 ''Ethereum Mainnet'' [holdingY, holdingX, holdingZ]
     dexMapXYZ verifiedXYZ 100 = Inr reportXYZ
   \<and> concentrationRisk (RiskReport.flags reportXYZ)
   \<and> (\<exists>t\<in>set (tokenRisks reportXYZ). portfolioPercentage t > 50)
   \<and> \<not> rugPullRisk (RiskReport.flags reportXYZ)
   \<and> \<not> (\<exists>t\<in>set (tokenRisks reportXYZ). \<not> isContractVerified t \<and> \<not> TokenRisk.hasLiquidityLock t)
   \<and> lowLiquidityRisk (RiskReport.flags reportXYZ)
   \<and> (\<exists>t\<in>set (tokenRisks reportXYZ). 0 < TokenRisk.liquidityUsd t \<and> TokenRisk.liquidityUsd t < 50000)
   \<and> highVolatilityRisk (RiskReport.flags reportXYZ)
   \<and> (\<exists>t\<in>set (tokenRisks reportXYZ). portfolioPercentage t > 30 \<and> riskScore t > 50)"
proof -
  have f: "RiskReport.flags reportXYZ =
             \<lparr> concentrationRisk = True, rugPullRisk = False,
               lowLiquidityRisk = True, highVolatilityRisk = True \<rparr>"
    by (simp add: reportXYZ_def)
  show ?thesis
    using C3_flags [OF report_XYZ] report_XYZ unfolding f by simp
qed

text \<open>
  C4. The risk level of a report is a step function of its overall score: CRITICAL from
  70, else HIGH from 50, else MEDIUM from 30, else LOW. So 70 is CRITICAL, 69 and 50 are
  HIGH, 49 and 30 are MEDIUM, 29 and 0 are LOW.
\<close>

theorem C4_riskLevel:
  assumes "buildRiskReport now w c cn holdings dm vm totalUsd = Inr r"
  shows "riskLevel r =
           (if overallRiskScore r \<ge> 70 then CRITICAL
            else if overallRiskScore r \<ge> 50 then HIGH
            else if overallRiskScore r \<ge> 30 then MEDIUM
            else LOW)
       \<and> riskLevel r = riskLevelOf (overallRiskScore r)
       \<and> riskLevelOf s = (if s \<ge> 70 then CRITICAL else if s \<ge> 50 then HIGH
                           else if s \<ge> 30 then MEDIUM else LOW)
       \<and> riskLevelOf 70 = CRITICAL \<and> riskLevelOf 69 = HIGH \<and> riskLevelOf 50 = HIGH
       \<and> riskLevelOf 49 = MEDIUM \<and> riskLevelOf 30 = MEDIUM
       \<and> riskLevelOf 29 = LOW \<and> riskLevelOf 0 = LOW"
  using buildRiskReport_fields(3) [OF assms]
  by (simp add: riskLevelOf_def)

theorem C4_riskLevel_witness:
  "buildRiskReport nowEx walletEx 1 ''Ethereum Mainnet'' [holdingY, holdingX, holdingZ]
     dexMapXYZ verifiedXYZ 100 = Inr reportXYZ
   \<and> overallRiskScore reportXYZ = 42 \<and> riskLevel reportXYZ = MEDIUM
   \<and> buildRiskReport nowEx walletEx 1 ''Ethereum Mainnet'' [holdingS] Map.empty Map.empty 0 = Inr reportS
   \<and> overallRiskScore reportS = 75 \<and> riskLevel reportS = CRITICAL"
proof -
  have a: "overallRiskScore reportXYZ = 42" "overallRiskScore reportS = 75"
    by (simp_all add: reportXYZ_def reportS_def)
  show ?thesis
    using C4_riskLevel [OF report_XYZ] C4_riskLevel [OF report_S] report_XYZ report_S
    unfolding a by simp
qed

text \<open>
  C7. In every report the \<open>tokenRisks\<close> list is a permutation of the per-token results
  (the results of scoring the holdings one by one, in the order of the holdings) sorted by
  score, highest first, and the sort is stable: the entries of any one score are in the
  report in the same order as in the per-token results.
\<close>

theorem C7_sorted_stable:
  assumes "buildRiskReport now w c cn holdings dm vm totalUsd = Inr r"
  shows "mapE (holdingRisk holdings dm vm totalUsd) holdings
           = Inr (perTokenResults holdings dm vm totalUsd)
       \<and> mset (tokenRisks r) = mset (perTokenResults holdings dm vm totalUsd)
       \<and> sorted_wrt (\<lambda>a b. riskScore b \<le> riskScore a) (tokenRisks r)
       \<and> (\<forall>k. filter (\<lambda>t. riskScore t = k) (tokenRisks r)
                = filter (\<lambda>t. riskScore t = k) (perTokenResults holdings dm vm totalUsd))
       \<and> map TokenRisk.contractAddress (perTokenResults holdings dm vm totalUsd)
            = map TokenHolding.contractAddress holdings"
  using buildRiskReport_fields(1) [OF assms]
    desc_Array_sort [of "perTokenResults holdings dm vm totalUsd"]
    buildRiskReport_fields(8) [OF assms]
  by (simp add: mset_Array_sort Array_sort_stable perTokenResults_order desc_def)

text \<open>
  The holdings Y, X, Z score 0, 70, 0: the report lists X, Y, Z, with Y still before Z.
\<close>

theorem C7_sorted_stable_witness:
  "buildRiskReport nowEx walletEx 1 ''Ethereum Mainnet'' [holdingY, holdingX, holdingZ]
     dexMapXYZ verifiedXYZ 100 = Inr reportXYZ
   \<and> perTokenResults [holdingY, holdingX, holdingZ] dexMapXYZ verifiedXYZ 100 = [riskY, riskX, riskZ]
   \<and> tokenRisks reportXYZ = [riskX, riskY, riskZ]
   \<and> sorted_wrt (\<lambda>a b. riskScore b \<le> riskScore a) [riskX, riskY, riskZ]
   \<and> filter (\<lambda>t. riskScore t = 0) (tokenRisks reportXYZ)
       = filter (\<lambda>t. riskScore t = 0) [riskY, riskX, riskZ]
   \<and> filter (\<lambda>t. riskScore t = 0) [riskY, riskX, riskZ] = [riskY, riskZ]"
proof -
  have t: "tokenRisks reportXYZ = [riskX, riskY, riskZ]" by (simp add: reportXYZ_def)
  have s: "riskScore riskX = 70" "riskScore riskY = 0" "riskScore riskZ = 0"
    by (simp_all add: riskX_def riskY_def riskZ_def)
  show ?thesis
    using C7_sorted_stable [OF report_XYZ] report_XYZ
    unfolding perToken_XYZ t by (simp add: s)
qed

section \<open>The diversification advisory\<close>



section \<open>The portfolio percentage\<close>

text \<open>
  C6. The claim gives a holding whose USD value is present the percentage
  value / total * 100 whenever the total is positive. \<open>buildRiskReport\<close> tests the value
  for truthiness, and 0 is falsy: in a portfolio of 100 USD made of one holding of 100 USD
  and one of 0 USD, the latter gets the equal weight 100 / 2 = 50 and not 0, and is scored
  with 50 percent. The former gets 100 percent.
\<close>

theorem C6_zero_value_equal_weight:
  "usdValue holdingPriced = Some 100
   \<and> usdValue holdingZero = Some 0
   \<and> portfolioPercentOf 100 [holdingPriced, holdingZero] holdingPriced = Inr 100
   \<and> portfolioPercentOf 100 [holdingPriced, holdingZero] holdingZero = Inr 50
   \<and> portfolioPercentOf 100 [holdingPriced, holdingZero] holdingZero \<noteq> Inr 0
   \<and> holdingRisk [holdingPriced, holdingZero] Map.empty Map.empty 100 holdingZero = Inr riskZero
   \<and> portfolioPercentage riskZero = 50"
proof -
  have u: "usdValue holdingPriced = Some 100" "usdValue holdingZero = Some 0"
    by (simp_all add: holdingPriced_def holdingZero_def)
  have p: "portfolioPercentage riskZero = 50" by (simp add: riskZero_def)
  show ?thesis by (simp add: u p percent_Priced percent_Zero risk_Zero)
qed

section \<open>The empty wallet\<close>

text \<open>
  C8. On an empty list of holdings \<open>buildRiskReport\<close> returns a report (no error branch is
  reached: the mean is guarded to 0 and the maximum of the empty list is 0) with overall
  score 0, level LOW, all four flags false, no token risks and zero tokens found. And
  when the holdings collector returns no holdings, \<open>analyzeWallet\<close> returns the report for
  empty wallets, with score 0, level LOW and all flags false, having called nothing but
  the holdings collector.
\<close>

theorem C8_empty_holdings:
  "buildRiskReport now w c cn [] dm vm totalUsd =
     Inr \<lparr> walletAddress = w, analyzedAt = now, chainId = c, chainName = cn,
           totalTokensFound = 0, estimatedPortfolioUsd = totalUsd,
           overallRiskScore = 0, riskLevel = LOW, tokenRisks = [],
           RiskReport.flags = \<lparr> concentrationRisk = False, rugPullRisk = False,
                                lowLiquidityRisk = False, highVolatilityRisk = False \<rparr>,
           summary = buildSummary w ''LOW'' 0 [],
           recommendations = [renderRecommendation LooksSafe] \<rparr>
   \<and> avgScoreOf [] = Inr 0 \<and> maxScoreOf [] = 0 \<and> overallScoreOf [] = Inr 0
   \<and> (getTokenHoldings env (AnalyzeRequest.walletAddress req) (requestChain req) = []
       \<longrightarrow> analyzeWallet now pf env req =
             Inr (\<lparr> walletAddress = AnalyzeRequest.walletAddress req, analyzedAt = now,
                     chainId = requestChain req, chainName = chainNameOf (requestChain req),
                     totalTokensFound = 0, estimatedPortfolioUsd = 0,
                     overallRiskScore = 0, riskLevel = LOW, tokenRisks = [],
                     RiskReport.flags = \<lparr> concentrationRisk = False, rugPullRisk = False,
                                          lowLiquidityRisk = False, highVolatilityRisk = False \<rparr>,
                     summary = ''Wallet '' @ slice_first6 (AnalyzeRequest.walletAddress req) @ ''...''
                               @ slice_last4 (AnalyzeRequest.walletAddress req)
                               @ '' has no ERC-20 token holdings.'',
                     recommendations =
                       [''No tokens found. Wallet may only hold native currency (ETH/BNB/MATIC).''] \<rparr>,
                  [CallGetTokenHoldings (AnalyzeRequest.walletAddress req) (requestChain req)]))"
  using analyzeWallet_empty [of env req now pf]
  by (simp add: buildRiskReport_empty avgScoreOf_def maxScoreOf_def overallScoreOf_def bindE_def
      Math_round_def emptyWalletReport_def)

theorem C8_empty_holdings_witness:
  "getTokenHoldings emptyCollectors (AnalyzeRequest.walletAddress requestEx) (requestChain requestEx) = []
   \<and> analyzeWallet nowEx parseFloatEx emptyCollectors requestEx =
       Inr (\<lparr> walletAddress = walletEx, analyzedAt = nowEx,
               chainId = 1, chainName = ''Ethereum Mainnet'',
               totalTokensFound = 0, estimatedPortfolioUsd = 0,
               overallRiskScore = 0, riskLevel = LOW, tokenRisks = [],
               RiskReport.flags = \<lparr> concentrationRisk = False, rugPullRisk = False,
                                    lowLiquidityRisk = False, highVolatilityRisk = False \<rparr>,
               summary = ''Wallet 0xd8dA...6045 has no ERC-20 token holdings.'',
               recommendations =
                 [''No tokens found. Wallet may only hold native currency (ETH/BNB/MATIC).''] \<rparr>,
            [CallGetTokenHoldings walletEx 1])"
proof -
  have e: "getTokenHoldings emptyCollectors (AnalyzeRequest.walletAddress requestEx)
             (requestChain requestEx) = []"
    by (simp add: emptyCollectors_def)
  have r: "AnalyzeRequest.walletAddress requestEx = walletEx" "requestChain requestEx = 1"
    by (simp_all add: requestEx_def requestChain_def)
  have c: "chainNameOf 1 = ''Ethereum Mainnet''"
    by (simp add: chainNameOf_def CHAIN_NAMES_def)
  have w: "slice_first6 walletEx = ''0xd8dA''" "slice_last4 walletEx = ''6045''"
    by (simp_all add: slice_first6_def slice_last4_def walletEx_def)
  show ?thesis
    using C8_empty_holdings [where env = emptyCollectors and req = requestEx and now = nowEx
                                and pf = parseFloatEx] e
    unfolding r c w by simp
qed

section \<open>The liquidity-lock heuristic of the collector\<close>

text \<open>
  C10. Every record that \<open>getTokenDexData\<close> returns has \<open>hasLiquidityLock\<close> true iff its
  \<open>liquidityUsd\<close>, which is that of the selected best pair, is above 100000. So a record
  of this collector that is marked as locked has a liquidity above 100000 and never gets
  the critically-low or the low liquidity tier in the scoring.
\<close>

theorem C10_liquidity_lock_heuristic:
  assumes "getTokenDexData pf resp cid = Inr (Some d)"
  shows "(DexTokenData.hasLiquidityLock d \<longleftrightarrow> DexTokenData.liquidityUsd d > 100000)
       \<and> (\<exists>pairs chain best others.
             resp = Response (Some pairs)
           \<and> Array_sort byLiquidityDesc (filter (\<lambda>p. DexPair.chainId p = chain) pairs) = best # others
           \<and> DexTokenData.liquidityUsd d = opt_num_or (opt_field (liquidity best)) 0)
       \<and> (DexTokenData.hasLiquidityLock d \<longrightarrow>
             \<not> DexTokenData.liquidityUsd d < 10000 \<and> \<not> DexTokenData.liquidityUsd d < 50000
           \<and> (\<forall>h p v x.
                 CriticallyLowLiquidityFlag x \<notin> set (TokenRisk.flags (scoreTokenRisk h p (Some d) v))
               \<and> LowLiquidityFlag x \<notin> set (TokenRisk.flags (scoreTokenRisk h p (Some d) v))))"
proof -
  obtain pairs chain best others where
    g: "resp = Response (Some pairs)"
       "Array_sort byLiquidityDesc (filter (\<lambda>p. DexPair.chainId p = chain) pairs) = best # others"
       "DexTokenData.liquidityUsd d = opt_num_or (opt_field (liquidity best)) 0"
       "DexTokenData.hasLiquidityLock d = (opt_num_or (opt_field (liquidity best)) 0 > 100000)"
    using getTokenDexData_Some [OF assms] by blast
  have l: "DexTokenData.hasLiquidityLock d \<longleftrightarrow> DexTokenData.liquidityUsd d > 100000"
    using g(3,4) by simp
  show ?thesis
    using l g(1,2,3) liquidity_flags_locked [of d] by (intro conjI) (blast, blast, force)
qed

theorem C10_liquidity_lock_heuristic_witness:
  "getTokenDexData parseFloatEx (Response (Some [pairSmall, pairBest, pairOtherChain])) (Some 1)
     = Inr (Some dexBest)
   \<and> DexTokenData.hasLiquidityLock dexBest \<and> DexTokenData.liquidityUsd dexBest = 250000
   \<and> CriticallyLowLiquidityFlag 250000
       \<notin> set (TokenRisk.flags (scoreTokenRisk holdingX 80 (Some dexBest) True))
   \<and> LowLiquidityFlag 250000
       \<notin> set (TokenRisk.flags (scoreTokenRisk holdingX 80 (Some dexBest) True))
   \<and> getTokenDexData parseFloatEx (Response (Some [pairThin, pairOtherChain])) None = Inr (Some dexThin)
   \<and> \<not> DexTokenData.hasLiquidityLock dexThin \<and> DexTokenData.liquidityUsd dexThin = 80000"
proof -
  have l: "DexTokenData.liquidityUsd dexBest = 250000" "DexTokenData.liquidityUsd dexThin = 80000"
    by (simp_all add: dexBest_def dexThin_def)
  show ?thesis
    using C10_liquidity_lock_heuristic [OF dex_best] C10_liquidity_lock_heuristic [OF dex_thin]
      dex_best dex_thin
    unfolding l by simp
qed

end
